theory Spec2Isabelle
  imports Main
begin

section \<open>Data model\<close>

text \<open>
  The tables the controllers read and write, one record per row. Identifiers are the
  UUID strings of the database; timestamps are JavaScript \<^verbatim>\<open>Date\<close> values, that is
  milliseconds since the epoch; a nullable column is an \<open>option\<close>.
\<close>

type_synonym uuid = string
type_synonym timestamp = int

record student =
  s_id :: uuid
  s_full_name :: string
  s_registration_no :: string
  s_school_name :: string
  is_inside_event :: bool
  last_checkin_at :: "timestamp option"
  last_checkout_at :: "timestamp option"
  total_scan_count :: nat
  total_active_duration_minutes :: int
  s_feedback_count :: nat

record volunteer =
  v_id :: uuid
  v_email :: string
  v_full_name :: string
  v_assigned_location :: string
  v_is_active :: bool
  total_scans_performed :: nat

datatype scan_type = CHECKIN | CHECKOUT

record check_in_out =
  cio_student_id :: uuid
  cio_volunteer_id :: uuid
  cio_scan_type :: scan_type
  cio_scan_number :: nat
  cio_duration_minutes :: "int option"

record stall =
  st_id :: uuid
  st_stall_number :: string
  st_stall_name :: string
  st_school_name :: string
  st_description :: string
  st_location :: string
  st_qr_code_token :: "string option"
  st_total_feedback_count :: nat

record feedback =
  fb_student_id :: uuid
  fb_stall_id :: uuid
  fb_rating :: int
  fb_comment :: "string option"
  fb_submitted_at :: timestamp

record db =
  students :: "student list"
  volunteers :: "volunteer list"
  check_in_outs :: "check_in_out list"
  stalls :: "stall list"
  feedbacks :: "feedback list"

text \<open>
  What a handler does with the response object: \<^verbatim>\<open>errorResponse(res, message, status)\<close>,
  \<^verbatim>\<open>successResponse(res, data, message, status)\<close>, or \<^verbatim>\<open>next(error)\<close> from the
  \<^verbatim>\<open>catch\<close> block when an awaited statement threw.
\<close>

datatype 'a response =
    ErrorResponse string nat
  | SuccessResponse 'a string nat
  | NextError

section \<open>JavaScript arithmetic and string interpolation\<close>

text \<open>
  \<^verbatim>\<open>new Date(x)\<close> of a timestamp column is its time, and the epoch when the column is
  null. \<^verbatim>\<open>Math.floor(a / b)\<close> on integers with \<open>b > 0\<close> is \<open>a div b\<close> of \<open>int\<close> (rounds
  down); \<^verbatim>\<open>a % b\<close> truncates toward zero and takes the sign of \<open>a\<close>.
\<close>

definition new_Date :: "timestamp option \<Rightarrow> timestamp" where
  "new_Date x = (case x of None \<Rightarrow> 0 | Some t \<Rightarrow> t)"

definition js_rem :: "int \<Rightarrow> int \<Rightarrow> int" where
  "js_rem a b = (if a < 0 then - ((- a) mod \<bar>b\<bar>) else a mod \<bar>b\<bar>)"

fun show_nat :: "nat \<Rightarrow> string" where
  "show_nat n =
     (if n < 10 then [''0123456789'' ! n]
      else show_nat (n div 10) @ [''0123456789'' ! (n mod 10)])"

definition show_int :: "int \<Rightarrow> string" where
  "show_int i = (if i < 0 then ''-'' @ show_nat (nat (- i)) else show_nat (nat i))"

section \<open>Model layer\<close>

text \<open>\<^verbatim>\<open>Volunteer.findById\<close>: \<^verbatim>\<open>SELECT * FROM volunteers WHERE id = $1 LIMIT 1\<close>.\<close>

definition Volunteer_findById :: "uuid \<Rightarrow> db \<Rightarrow> volunteer option" where
  "Volunteer_findById i d = find (\<lambda>v. v_id v = i) (volunteers d)"

text \<open>
  Modelled from the spec: \<^verbatim>\<open>Student.model.js\<close> is not among the sources.
  \<^verbatim>\<open>findByRegistrationNo\<close> resolves the attendee record by external id
  (section 4.4, step 2) and \<^verbatim>\<open>findById\<close> by the internal id; both are absent
  (\<open>None\<close>) when no row matches.
\<close>

definition Student_findByRegistrationNo :: "string \<Rightarrow> db \<Rightarrow> student option" where
  "Student_findByRegistrationNo r d = find (\<lambda>s. s_registration_no s = r) (students d)"

definition Student_findById :: "uuid \<Rightarrow> db \<Rightarrow> student option" where
  "Student_findById i d = find (\<lambda>s. s_id s = i) (students d)"

text \<open>
  Modelled from the spec: \<^verbatim>\<open>Student.processCheckInOut\<close> is the Presence Store's
  \<^verbatim>\<open>ToggleAndRecord\<close> (section 4.3): flip the state (OUTSIDE to INSIDE sets the entry
  time to now; INSIDE to OUTSIDE sets the exit time to now and leaves the entry time
  untouched), increment the scan count, persist. The controller's own comment says the
  same: it "toggles is_inside_event automatically and updates timestamps". It is one
  UPDATE keyed on the id, and returns the updated row.
\<close>

definition toggle :: "timestamp \<Rightarrow> student \<Rightarrow> student" where
  "toggle now s =
     (if is_inside_event s
      then s\<lparr>is_inside_event := False, last_checkout_at := Some now,
              total_scan_count := total_scan_count s + 1\<rparr>
      else s\<lparr>is_inside_event := True, last_checkin_at := Some now,
              total_scan_count := total_scan_count s + 1\<rparr>)"

definition update_student :: "uuid \<Rightarrow> (student \<Rightarrow> student) \<Rightarrow> db \<Rightarrow> db" where
  "update_student i f d = d\<lparr>students := map (\<lambda>s. if s_id s = i then f s else s) (students d)\<rparr>"

definition Student_processCheckInOut :: "uuid \<Rightarrow> timestamp \<Rightarrow> db \<Rightarrow> student option \<times> db" where
  "Student_processCheckInOut i now d =
     (let d' = update_student i (toggle now) d in (Student_findById i d', d'))"

text \<open>
  Modelled from the spec: \<^verbatim>\<open>Student.updateActiveDuration\<close> adds the minutes of a
  visit to the attendee's accumulated minutes; \<^verbatim>\<open>Student.incrementFeedbackCount\<close>
  adds one to the student's feedback counter.
\<close>

definition Student_updateActiveDuration :: "uuid \<Rightarrow> int \<Rightarrow> db \<Rightarrow> db" where
  "Student_updateActiveDuration i m d =
     update_student i
       (\<lambda>s. s\<lparr>total_active_duration_minutes := total_active_duration_minutes s + m\<rparr>) d"

definition Student_incrementFeedbackCount :: "uuid \<Rightarrow> db \<Rightarrow> db" where
  "Student_incrementFeedbackCount i d =
     update_student i (\<lambda>s. s\<lparr>s_feedback_count := s_feedback_count s + 1\<rparr>) d"

text \<open>
  Modelled from the spec: \<^verbatim>\<open>CheckInOut.create\<close> appends one entry to the scan ledger
  (\<^verbatim>\<open>CheckInOut.model.js\<close> is not among the sources).
\<close>

definition CheckInOut_create :: "check_in_out \<Rightarrow> db \<Rightarrow> db" where
  "CheckInOut_create r d = d\<lparr>check_in_outs := check_in_outs d @ [r]\<rparr>"

text \<open>
  The statement of the scan handler itself:
  \<^verbatim>\<open>UPDATE volunteers SET total_scans_performed = total_scans_performed + 1 WHERE id = $1\<close>.
\<close>

definition increment_scans_performed :: "uuid \<Rightarrow> db \<Rightarrow> db" where
  "increment_scans_performed i d =
     d\<lparr>volunteers :=
         map (\<lambda>v. if v_id v = i then v\<lparr>total_scans_performed := total_scans_performed v + 1\<rparr>
                  else v) (volunteers d)\<rparr>"

section \<open>The scan handler (volunteer.controller.js, scanStudentQR)\<close>

datatype action = ENTRY | EXIT

text \<open>
  The object a token verifier returns: \<^verbatim>\<open>{ valid, isStatic, registration_no }\<close>. A
  missing \<^verbatim>\<open>isStatic\<close> is falsy, so it is \<open>False\<close> here.
\<close>

record decoded =
  valid :: bool
  isStatic :: bool
  d_registration_no :: string

text \<open>
  \<^verbatim>\<open>services/qrCode.js\<close> is not among the sources. The handler only calls its two
  student verifiers, so they are parameters of the handler: any two functions from the
  clock and the presented token to a decoded object (the static one may also resolve
  to \<^verbatim>\<open>null\<close>).
\<close>

record qr_service =
  verifyRotatingStudentToken :: "timestamp \<Rightarrow> string \<Rightarrow> decoded"
  verifyStudentQRToken :: "timestamp \<Rightarrow> string \<Rightarrow> decoded option"

text \<open>
  Every awaited database statement may throw, and the first throw ends the handler
  in its \<^verbatim>\<open>catch\<close> block. So one request meets at most one fault, named by the
  statement that throws when it is reached.
\<close>

datatype fault =
    NoFault
  | StudentLookupFails
  | DebugQueryFails
  | VolunteerLookupFails
  | ToggleFails
  | LedgerWriteFails
  | DurationUpdateFails
  | CounterUpdateFails

record env =
  db_now :: timestamp
  js_now :: timestamp
  fault :: fault

record request =
  qr_code_token :: "string option"
  user_id :: uuid
  user_email :: string

text \<open>
  The response body. A field the handler adds for one action only is an \<open>option\<close>:
  \<open>None\<close> when the field is not in the object. \<^verbatim>\<open>check_in_time\<close> and
  \<^verbatim>\<open>check_out_time\<close> copy a nullable column, hence the nested option.
\<close>

record student_view =
  sv_id :: uuid
  sv_full_name :: string
  sv_registration_no :: string
  sv_school_name :: string
  sv_is_inside_event :: bool
  sv_total_scan_count :: nat
  check_in_time :: "timestamp option option"
  check_out_time :: "timestamp option option"
  duration_minutes :: "int option"
  duration_formatted :: "string option"

record scan_details =
  sd_timestamp :: timestamp
  sd_volunteer_id :: uuid
  sd_volunteer_email :: string

record scan_data =
  rd_student :: student_view
  rd_action :: action
  rd_scan_details :: scan_details
  rd_message :: string

text \<open>
  Step 1 (lines 205-212): the rotating verifier first; the static verifier only when
  the rotating one answers invalid and flags the token as static.
\<close>

definition verify_qr :: "qr_service \<Rightarrow> timestamp \<Rightarrow> string \<Rightarrow> decoded option" where
  "verify_qr qr now tok =
     (let dec = verifyRotatingStudentToken qr now tok in
      if \<not> valid dec \<and> isStatic dec then verifyStudentQRToken qr now tok else Some dec)"

text \<open>
  Step 7 (lines 260-297), after the toggle: the ledger entry and the duration. The
  result is the database as the statements left it and the duration, or \<open>None\<close> when
  a statement threw. \<^verbatim>\<open>previousCheckInTime\<close> is a \<^verbatim>\<open>Date\<close> or \<^verbatim>\<open>null\<close>, so it is
  truthy exactly when it is not null.
\<close>

definition save_scan ::
  "fault \<Rightarrow> uuid \<Rightarrow> student \<Rightarrow> student \<Rightarrow> db \<Rightarrow> int option \<times> db" where
  "save_scan f vid student updatedStudent d =
     (if \<not> is_inside_event student then
        (if f = LedgerWriteFails then (None, d)
         else (Some 0,
               CheckInOut_create
                 \<lparr>cio_student_id = s_id student, cio_volunteer_id = vid,
                  cio_scan_type = CHECKIN,
                  cio_scan_number = total_scan_count updatedStudent,
                  cio_duration_minutes = None\<rparr> d))
      else
        (case last_checkin_at student of
           None \<Rightarrow> (Some 0, d)
         | Some checkInTime \<Rightarrow>
             (let checkOutTime = new_Date (last_checkout_at updatedStudent);
                  durationMinutes = (checkOutTime - checkInTime) div (1000 * 60)
              in if f = LedgerWriteFails then (None, d)
                 else
                   (let d1 = CheckInOut_create
                               \<lparr>cio_student_id = s_id student, cio_volunteer_id = vid,
                                cio_scan_type = CHECKOUT,
                                cio_scan_number = total_scan_count updatedStudent,
                                cio_duration_minutes = Some durationMinutes\<rparr> d
                    in if f = DurationUpdateFails then (None, d1)
                       else (Some durationMinutes,
                             Student_updateActiveDuration (s_id student) durationMinutes d1)))))"

text \<open>Step 9 (lines 307-334): the response body, with the fields of the action.\<close>

definition format_duration :: "int \<Rightarrow> string" where
  "format_duration m = show_int (m div 60) @ ''h '' @ show_int (js_rem m 60) @ ''m''"

definition responseData ::
  "env \<Rightarrow> request \<Rightarrow> student \<Rightarrow> student \<Rightarrow> int \<Rightarrow> scan_data" where
  "responseData e req student updatedStudent durationMinutes =
     (let base = \<lparr>sv_id = s_id updatedStudent,
                  sv_full_name = s_full_name updatedStudent,
                  sv_registration_no = s_registration_no updatedStudent,
                  sv_school_name = s_school_name updatedStudent,
                  sv_is_inside_event = is_inside_event updatedStudent,
                  sv_total_scan_count = total_scan_count updatedStudent,
                  check_in_time = None, check_out_time = None,
                  duration_minutes = None, duration_formatted = None\<rparr>;
          details = \<lparr>sd_timestamp = js_now e, sd_volunteer_id = user_id req,
                     sd_volunteer_email = user_email req\<rparr>
      in if \<not> is_inside_event student then
           \<lparr>rd_student = base\<lparr>check_in_time := Some (last_checkin_at updatedStudent)\<rparr>,
            rd_action = ENTRY, rd_scan_details = details,
            rd_message = ''Welcome '' @ s_full_name student @ ''! Enjoy the event.''\<rparr>
         else
           \<lparr>rd_student = base\<lparr>check_out_time := Some (last_checkout_at updatedStudent),
                               duration_minutes := Some durationMinutes,
                               duration_formatted := Some (format_duration durationMinutes)\<rparr>,
            rd_action = EXIT, rd_scan_details = details,
            rd_message = ''Goodbye '' @ s_full_name student @ ''! You spent ''
                           @ format_duration durationMinutes @ '' at the event.''\<rparr>)"

text \<open>
  The handler. \<^verbatim>\<open>Student.processCheckInOut\<close> is not among the sources, so the
  handler takes it as a parameter: a function from the student's id, the time of the
  statement and the database to the row it returns (or null) and the database it
  leaves. \<^verbatim>\<open>!qr_code_token\<close> holds for a missing token and for the empty
  string. The action is read from the row found in step 2, before the toggle. Were
  the toggle to return no row, the first read of \<^verbatim>\<open>updatedStudent\<close> would throw a
  TypeError: at line 270 or 278 before any further write, and for an EXIT without an
  entry time only at line 310, after the operator's counter has been incremented.
\<close>

definition scanStudentQR_with ::
  "(uuid \<Rightarrow> timestamp \<Rightarrow> db \<Rightarrow> student option \<times> db) \<Rightarrow> qr_service \<Rightarrow> env \<Rightarrow> request \<Rightarrow> db
     \<Rightarrow> scan_data response \<times> db" where
  "scanStudentQR_with processCheckInOut qr e req d =
     (case qr_code_token req of
        None \<Rightarrow> (ErrorResponse ''QR code token is required'' 400, d)
      | Some tok \<Rightarrow>
          if tok = [] then (ErrorResponse ''QR code token is required'' 400, d)
          else
            (case verify_qr qr (js_now e) tok of
               None \<Rightarrow> (ErrorResponse ''Invalid QR code'' 400, d)
             | Some dec \<Rightarrow>
                 if \<not> valid dec then (ErrorResponse ''Invalid QR code'' 400, d)
                 else if fault e = StudentLookupFails then (NextError, d)
                 else
                   (case Student_findByRegistrationNo (d_registration_no dec) d of
                      None \<Rightarrow>
                        if fault e = DebugQueryFails then (NextError, d)
                        else (ErrorResponse
                                (''Student not found. Registration: '' @ d_registration_no dec)
                                404, d)
                    | Some student \<Rightarrow>
                        if fault e = VolunteerLookupFails then (NextError, d)
                        else if (case Volunteer_findById (user_id req) d of
                                   None \<Rightarrow> False | Some v \<Rightarrow> \<not> v_is_active v)
                        then (ErrorResponse
                                ''Your volunteer account is inactive. Contact admin.'' 403, d)
                        else if fault e = ToggleFails then (NextError, d)
                        else
                          (case processCheckInOut (s_id student) (db_now e) d of
                             (None, d1) \<Rightarrow>
                               if is_inside_event student \<and> last_checkin_at student = None
                                  \<and> fault e \<noteq> CounterUpdateFails
                               then (NextError, increment_scans_performed (user_id req) d1)
                               else (NextError, d1)
                           | (Some updatedStudent, d1) \<Rightarrow>
                               (case save_scan (fault e) (user_id req) student updatedStudent d1 of
                                  (None, d2) \<Rightarrow> (NextError, d2)
                                | (Some durationMinutes, d2) \<Rightarrow>
                                    if fault e = CounterUpdateFails then (NextError, d2)
                                    else
                                      (SuccessResponse
                                         (responseData e req student updatedStudent durationMinutes)
                                         (if \<not> is_inside_event student
                                          then ''Student checked in successfully at entry gate''
                                          else ''Student checked out successfully at exit gate'')
                                         (if \<not> is_inside_event student then 201 else 200),
                                       increment_scans_performed (user_id req) d2))))))"

text \<open>The handler with the toggle of the spec's Presence Store.\<close>

definition scanStudentQR ::
  "qr_service \<Rightarrow> env \<Rightarrow> request \<Rightarrow> db \<Rightarrow> scan_data response \<times> db" where
  "scanStudentQR = scanStudentQR_with Student_processCheckInOut"

text \<open>
  Lines 247-343 on their own: the handler from the toggle statement on, with the row
  \<open>student\<close> that step 2 read and the database the toggle statement meets. The
  handler awaits each of its statements and nothing in it holds the row between the
  read of line 222 and the toggle of line 258, so another request can be served in
  between: the database of the toggle need not be the one the row was read from.
\<close>

definition process_scan ::
  "(uuid \<Rightarrow> timestamp \<Rightarrow> db \<Rightarrow> student option \<times> db) \<Rightarrow> env \<Rightarrow> request \<Rightarrow> student \<Rightarrow> db
     \<Rightarrow> scan_data response \<times> db" where
  "process_scan processCheckInOut e req student d =
     (if fault e = ToggleFails then (NextError, d)
      else
        (case processCheckInOut (s_id student) (db_now e) d of
           (None, d1) \<Rightarrow>
             if is_inside_event student \<and> last_checkin_at student = None
                \<and> fault e \<noteq> CounterUpdateFails
             then (NextError, increment_scans_performed (user_id req) d1)
             else (NextError, d1)
         | (Some updatedStudent, d1) \<Rightarrow>
             (case save_scan (fault e) (user_id req) student updatedStudent d1 of
                (None, d2) \<Rightarrow> (NextError, d2)
              | (Some durationMinutes, d2) \<Rightarrow>
                  if fault e = CounterUpdateFails then (NextError, d2)
                  else
                    (SuccessResponse
                       (responseData e req student updatedStudent durationMinutes)
                       (if \<not> is_inside_event student
                        then ''Student checked in successfully at entry gate''
                        else ''Student checked out successfully at exit gate'')
                       (if \<not> is_inside_event student then 201 else 200),
                     increment_scans_performed (user_id req) d2))))"

text \<open>
  Steps 1 to 3 as one question: the row of the student the request is admitted for,
  or \<open>None\<close> when the token is missing or fails verification, no student has the
  registration number, or the operator's record is inactive. An operator with no
  record is let through by line 238 (\<^verbatim>\<open>volunteer && !volunteer.is_active\<close>).
\<close>

definition admitted :: "qr_service \<Rightarrow> env \<Rightarrow> request \<Rightarrow> db \<Rightarrow> student option" where
  "admitted qr e req d =
     (case qr_code_token req of
        None \<Rightarrow> None
      | Some tok \<Rightarrow>
          if tok = [] then None
          else
            (case verify_qr qr (js_now e) tok of
               None \<Rightarrow> None
             | Some dec \<Rightarrow>
                 if \<not> valid dec then None
                 else
                   (case Student_findByRegistrationNo (d_registration_no dec) d of
                      None \<Rightarrow> None
                    | Some student \<Rightarrow>
                        (case Volunteer_findById (user_id req) d of
                           None \<Rightarrow> Some student
                         | Some v \<Rightarrow> if v_is_active v then Some student else None))))"

text \<open>
  The faults an admitted request meets at or before the toggle statement
  (\<open>DebugQueryFails\<close> is met only when no student is found), and those it can meet
  after it.
\<close>

definition fails_before_toggle :: "fault \<Rightarrow> bool" where
  "fails_before_toggle f =
     (f = StudentLookupFails \<or> f = VolunteerLookupFails \<or> f = ToggleFails)"

definition fails_after_toggle :: "fault \<Rightarrow> bool" where
  "fails_after_toggle f =
     (f = LedgerWriteFails \<or> f = DurationUpdateFails \<or> f = CounterUpdateFails)"

text \<open>The presence state of an attendee: \<open>Some True\<close> is INSIDE, \<open>Some False\<close> is OUTSIDE.\<close>

definition presence :: "uuid \<Rightarrow> db \<Rightarrow> bool option" where
  "presence i d = map_option is_inside_event (Student_findById i d)"

text \<open>What a station reads off a response.\<close>

definition response_status :: "'a response \<Rightarrow> nat option" where
  "response_status r =
     (case r of ErrorResponse msg code \<Rightarrow> Some code
      | SuccessResponse data msg code \<Rightarrow> Some code
      | NextError \<Rightarrow> None)"

definition response_action :: "scan_data response \<Rightarrow> action option" where
  "response_action r =
     (case r of SuccessResponse data msg code \<Rightarrow> Some (rd_action data) | _ \<Rightarrow> None)"

definition response_duration :: "scan_data response \<Rightarrow> int option" where
  "response_duration r =
     (case r of SuccessResponse data msg code \<Rightarrow> duration_minutes (rd_student data)
      | _ \<Rightarrow> None)"

definition is_success :: "'a response \<Rightarrow> bool" where
  "is_success r = (case r of SuccessResponse data msg code \<Rightarrow> True | _ \<Rightarrow> False)"

text \<open>
  A gate's traffic: requests served one after the other, each on the database the
  previous one left. The accepted scans of one attendee are the success responses
  that carry the attendee's id, and their actions are what the stations were told.
\<close>

fun run_scans :: "qr_service \<Rightarrow> (env \<times> request) list \<Rightarrow> db \<Rightarrow> scan_data response list" where
  "run_scans qr [] d = []"
| "run_scans qr ((e, req) # rest) d =
     (case scanStudentQR qr e req d of (resp, d') \<Rightarrow> resp # run_scans qr rest d')"

fun accepted_actions :: "uuid \<Rightarrow> scan_data response list \<Rightarrow> action list" where
  "accepted_actions sid [] = []"
| "accepted_actions sid (SuccessResponse data msg code # rs) =
     (if sv_id (rd_student data) = sid then rd_action data # accepted_actions sid rs
      else accepted_actions sid rs)"
| "accepted_actions sid (ErrorResponse msg code # rs) = accepted_actions sid rs"
| "accepted_actions sid (NextError # rs) = accepted_actions sid rs"

fun alternating :: "action \<Rightarrow> action list \<Rightarrow> bool" where
  "alternating a [] = True"
| "alternating a (x # xs) = (x = a \<and> alternating (if a = ENTRY then EXIT else ENTRY) xs)"

text \<open>
  The scans that took effect: the requests of the traffic that are admitted for the
  attendee and reach the toggle, each with the action the handler decides for it
  (lines 248-249), whatever happens to the request afterwards.
\<close>

fun toggled_actions :: "uuid \<Rightarrow> qr_service \<Rightarrow> (env \<times> request) list \<Rightarrow> db \<Rightarrow> action list" where
  "toggled_actions sid qr [] d = []"
| "toggled_actions sid qr ((e, req) # rest) d =
     (let later = toggled_actions sid qr rest (snd (scanStudentQR qr e req d))
      in case admitted qr e req d of
           None \<Rightarrow> later
         | Some student \<Rightarrow>
             if \<not> fails_before_toggle (fault e) \<and> s_id student = sid
             then (if is_inside_event student then EXIT else ENTRY) # later
             else later)"

section \<open>Token codecs\<close>

text \<open>
  Modelled from the spec: \<^verbatim>\<open>services/qrCode.js\<close> is not among the sources. Section 3
  and 4.1: a rotating token is \<open>(attendee_external_id, time_window_index, signature)\<close>,
  the window index is \<open>floor(now / window_duration)\<close> with a window of 30 seconds, and
  the grace period is 2 windows on either side. The signature algorithm is left open
  by the spec, so the keyed signature function \<open>sign\<close> and the compact encoding
  (\<open>encode\<close>, \<open>decode\<close>) are parameters. Time is in seconds here.
\<close>

definition ROTATION_INTERVAL_SECONDS :: int where
  "ROTATION_INTERVAL_SECONDS = 30"

definition GRACE_PERIOD_WINDOWS :: int where
  "GRACE_PERIOD_WINDOWS = 2"

record 'sig rotating_token =
  rt_registration_no :: string
  rt_window :: int
  rt_signature :: 'sig

datatype verify_result = Valid string | InvalidFormat | InvalidOrExpired

definition time_window_index :: "int \<Rightarrow> int" where
  "time_window_index now = now div ROTATION_INTERVAL_SECONDS"

definition Issue ::
  "(string \<Rightarrow> int \<Rightarrow> 'sig) \<Rightarrow> ('sig rotating_token \<Rightarrow> 'p) \<Rightarrow> string \<Rightarrow> int \<Rightarrow> 'p" where
  "Issue sign encode reg now =
     encode \<lparr>rt_registration_no = reg, rt_window = time_window_index now,
             rt_signature = sign reg (time_window_index now)\<rparr>"

definition candidate_windows :: "int \<Rightarrow> int list" where
  "candidate_windows now =
     [time_window_index now - GRACE_PERIOD_WINDOWS ..
      time_window_index now + GRACE_PERIOD_WINDOWS]"

definition Verify ::
  "(string \<Rightarrow> int \<Rightarrow> 'sig) \<Rightarrow> ('p \<Rightarrow> 'sig rotating_token option) \<Rightarrow> 'p \<Rightarrow> int
     \<Rightarrow> verify_result" where
  "Verify sign decode presented now =
     (case decode presented of
        None \<Rightarrow> InvalidFormat
      | Some t \<Rightarrow>
          if list_ex (\<lambda>w. rt_signature t = sign (rt_registration_no t) w)
               (candidate_windows now)
          then Valid (rt_registration_no t)
          else InvalidOrExpired)"

text \<open>
  The rotation metadata \<^verbatim>\<open>getQRCode\<close> sends with a token (student.controller.js,
  line 143): \<^verbatim>\<open>GRACE_PERIOD_WINDOWS * ROTATION_INTERVAL_SECONDS\<close>.
\<close>

definition grace_period_seconds :: int where
  "grace_period_seconds = GRACE_PERIOD_WINDOWS * ROTATION_INTERVAL_SECONDS"

text \<open>
  Modelled from the spec: the static codec of section 4.2 (\<^verbatim>\<open>generateStallQRToken\<close>
  and \<^verbatim>\<open>verifyStallQRToken\<close> of the absent \<^verbatim>\<open>services/qrCode.js\<close>). Issue signs the
  asset id; Verify checks the signature only. Every function of the service can read
  the wall clock, so the verifier takes it as an argument; this one does not look at it.
  A token that does not decode gives \<^verbatim>\<open>null\<close>.
\<close>

record 'sig static_token =
  asset_id :: string
  st_signature :: 'sig

record stall_decoded =
  sd_valid :: bool
  sd_asset_id :: string

definition generateStallQRToken ::
  "(string \<Rightarrow> 'sig) \<Rightarrow> ('sig static_token \<Rightarrow> string) \<Rightarrow> string \<Rightarrow> string" where
  "generateStallQRToken sign encode a = encode \<lparr>asset_id = a, st_signature = sign a\<rparr>"

definition verifyStallQRToken ::
  "(string \<Rightarrow> 'sig) \<Rightarrow> (string \<Rightarrow> 'sig static_token option) \<Rightarrow> timestamp \<Rightarrow> string
     \<Rightarrow> stall_decoded option" where
  "verifyStallQRToken sign decode now tok =
     (case decode tok of
        None \<Rightarrow> None
      | Some t \<Rightarrow> Some \<lparr>sd_valid = (st_signature t = sign (asset_id t)),
                         sd_asset_id = asset_id t\<rparr>)"

section \<open>Stalls (Stall.model.js) and the student's stall handlers (student.controller.js)\<close>

text \<open>
  \<^verbatim>\<open>Stall.findByQRToken\<close>: \<^verbatim>\<open>WHERE s.qr_code_token = $1 LIMIT 1\<close>;
  \<^verbatim>\<open>Stall.findById\<close>: \<^verbatim>\<open>WHERE s.id = $1 LIMIT 1\<close>. A stall's token is the column
  \<^verbatim>\<open>qr_code_token\<close> of its row, null for a stall that has none. The rows and their
  tokens are part of the state the handlers start from: \<^verbatim>\<open>Stall.bulkCreate\<close> inserts a
  row with the token it is given, and the \<^verbatim>\<open>INSERT\<close> of \<^verbatim>\<open>Stall.create\<close> names fourteen
  columns for thirteen values, so that function stores no row.
\<close>

definition Stall_findByQRToken :: "string \<Rightarrow> db \<Rightarrow> stall option" where
  "Stall_findByQRToken tok d = find (\<lambda>s. st_qr_code_token s = Some tok) (stalls d)"

definition Stall_findById :: "uuid \<Rightarrow> db \<Rightarrow> stall option" where
  "Stall_findById i d = find (\<lambda>s. st_id s = i) (stalls d)"

text \<open>
  Modelled from the spec: \<^verbatim>\<open>Feedback.model.js\<close> is not among the sources and the spec
  leaves stall feedback out of scope; the three functions the handlers call are read
  from their names and arguments.
\<close>

definition Feedback_findByStudentAndStall :: "uuid \<Rightarrow> uuid \<Rightarrow> db \<Rightarrow> feedback option" where
  "Feedback_findByStudentAndStall sid stid d =
     find (\<lambda>f. fb_student_id f = sid \<and> fb_stall_id f = stid) (feedbacks d)"

definition Feedback_countByStudent :: "uuid \<Rightarrow> db \<Rightarrow> nat" where
  "Feedback_countByStudent sid d = length (filter (\<lambda>f. fb_student_id f = sid) (feedbacks d))"

definition Feedback_create :: "feedback \<Rightarrow> db \<Rightarrow> db" where
  "Feedback_create f d = d\<lparr>feedbacks := feedbacks d @ [f]\<rparr>"

record stall_view =
  view_id :: uuid
  view_stall_number :: string
  view_stall_name :: string
  view_school_name :: string
  view_description :: string
  view_location :: string

record feedback_view =
  fv_rating :: int
  fv_comment :: "string option"
  fv_submitted_at :: timestamp

record stall_scan_data =
  ssd_stall :: stall_view
  already_reviewed :: bool
  existing_feedback :: "feedback_view option"

record stall_request =
  stall_qr_token :: "string option"
  sr_user_id :: uuid

text \<open>
  \<^verbatim>\<open>scanStall\<close> (lines 209-263). The stall verifier is a parameter, as the
  student verifiers are. The handler writes nothing. The statements are taken to
  succeed; a success without an explicit status is 200.
\<close>

definition scanStall ::
  "(timestamp \<Rightarrow> string \<Rightarrow> stall_decoded option) \<Rightarrow> timestamp \<Rightarrow> stall_request \<Rightarrow> db
     \<Rightarrow> stall_scan_data response \<times> db" where
  "scanStall verifyStall now req d =
     (case stall_qr_token req of
        None \<Rightarrow> (ErrorResponse ''Stall QR code is required'' 400, d)
      | Some tok \<Rightarrow>
          if tok = [] then (ErrorResponse ''Stall QR code is required'' 400, d)
          else if (case verifyStall now tok of None \<Rightarrow> True | Some dec \<Rightarrow> \<not> sd_valid dec)
          then (ErrorResponse ''Invalid stall QR code'' 400, d)
          else
            (case Stall_findByQRToken tok d of
               None \<Rightarrow> (ErrorResponse ''Stall not found'' 404, d)
             | Some stall \<Rightarrow>
                 (case Student_findById (sr_user_id req) d of
                    None \<Rightarrow> (ErrorResponse ''Student not found. Please login again.'' 404, d)
                  | Some student \<Rightarrow>
                      if \<not> is_inside_event student
                      then (ErrorResponse
                              ''You must be checked in at the event to scan stalls'' 403, d)
                      else
                        (let existingFeedback =
                               Feedback_findByStudentAndStall (sr_user_id req) (st_id stall) d
                         in (SuccessResponse
                               \<lparr>ssd_stall =
                                  \<lparr>view_id = st_id stall,
                                   view_stall_number = st_stall_number stall,
                                   view_stall_name = st_stall_name stall,
                                   view_school_name = st_school_name stall,
                                   view_description = st_description stall,
                                   view_location = st_location stall\<rparr>,
                                already_reviewed = (existingFeedback \<noteq> None),
                                existing_feedback =
                                  map_option
                                    (\<lambda>f. \<lparr>fv_rating = fb_rating f, fv_comment = fb_comment f,
                                          fv_submitted_at = fb_submitted_at f\<rparr>)
                                    existingFeedback\<rparr>
                               ''Stall scanned successfully'' 200, d)))))"

record feedback_request =
  fr_stall_id :: "uuid option"
  fr_rating :: "int option"
  fr_comment :: "string option"
  fr_user_id :: uuid

record feedback_data =
  fd_stall_name :: string
  fd_stall_number :: string
  fd_rating :: int
  fd_comment :: "string option"
  fd_submitted_at :: timestamp
  total_feedbacks_given :: nat
  remaining_feedbacks :: int

text \<open>
  \<^verbatim>\<open>submitFeedback\<close> (lines 269-347). \<^verbatim>\<open>!stall_id\<close> holds for a missing or empty id,
  \<^verbatim>\<open>!rating\<close> for a missing rating and for 0; \<^verbatim>\<open>comment || null\<close> turns an empty
  comment into null.
\<close>

definition submitFeedback ::
  "timestamp \<Rightarrow> feedback_request \<Rightarrow> db \<Rightarrow> feedback_data response \<times> db" where
  "submitFeedback now req d =
     (case (fr_stall_id req, fr_rating req) of
        (Some stall_id, Some rating) \<Rightarrow>
          if stall_id = [] \<or> rating = 0
          then (ErrorResponse ''Stall ID and rating are required'' 400, d)
          else if rating < 1 \<or> rating > 5
          then (ErrorResponse ''Rating must be between 1 and 5'' 400, d)
          else
            (case Student_findById (fr_user_id req) d of
               None \<Rightarrow> (ErrorResponse ''Student not found. Please login again.'' 404, d)
             | Some student \<Rightarrow>
                 if \<not> is_inside_event student
                 then (ErrorResponse
                         ''You must be checked in at the event to submit feedback'' 403, d)
                 else
                   (let feedbackCount = Feedback_countByStudent (fr_user_id req) d in
                    if feedbackCount \<ge> 200
                    then (ErrorResponse
                            ''You have reached the maximum feedback limit (200)'' 403, d)
                    else
                      (case Stall_findById stall_id d of
                         None \<Rightarrow> (ErrorResponse ''Stall not found'' 404, d)
                       | Some stall \<Rightarrow>
                           (case Feedback_findByStudentAndStall (fr_user_id req) stall_id d of
                              Some existingFeedback \<Rightarrow>
                                (ErrorResponse
                                   ''You have already submitted feedback for this stall'' 409, d)
                            | None \<Rightarrow>
                                (let comment = (case fr_comment req of
                                                  None \<Rightarrow> None
                                                | Some c \<Rightarrow> if c = [] then None else Some c);
                                     d1 = Feedback_create
                                            \<lparr>fb_student_id = fr_user_id req,
                                             fb_stall_id = stall_id, fb_rating = rating,
                                             fb_comment = comment, fb_submitted_at = now\<rparr> d;
                                     d2 = Student_incrementFeedbackCount (fr_user_id req) d1;
                                     d3 = d2\<lparr>stalls :=
                                            map (\<lambda>s. if st_id s = stall_id
                                                      then s\<lparr>st_total_feedback_count :=
                                                               st_total_feedback_count s + 1\<rparr>
                                                      else s) (stalls d2)\<rparr>
                                 in (SuccessResponse
                                       \<lparr>fd_stall_name = st_stall_name stall,
                                        fd_stall_number = st_stall_number stall,
                                        fd_rating = rating, fd_comment = comment,
                                        fd_submitted_at = now,
                                        total_feedbacks_given = feedbackCount + 1,
                                        remaining_feedbacks = 200 - (int feedbackCount + 1)\<rparr>
                                       ''Feedback submitted successfully'' 201, d3))))))
      | _ \<Rightarrow> (ErrorResponse ''Stall ID and rating are required'' 400, d))"

text \<open>
  The requests of this file in any order, each on the database the one before left:
  gate scans, stall scans and feedback submissions.
\<close>

datatype operation =
    ScanStudent env request
  | ScanStall timestamp stall_request
  | SubmitFeedback timestamp feedback_request

fun apply_operation ::
  "qr_service \<Rightarrow> (timestamp \<Rightarrow> string \<Rightarrow> stall_decoded option) \<Rightarrow> operation \<Rightarrow> db \<Rightarrow> db" where
  "apply_operation qr verifyStall (ScanStudent e req) d = snd (scanStudentQR qr e req d)"
| "apply_operation qr verifyStall (ScanStall now req) d = snd (scanStall verifyStall now req d)"
| "apply_operation qr verifyStall (SubmitFeedback now req) d = snd (submitFeedback now req d)"

fun run_operations ::
  "qr_service \<Rightarrow> (timestamp \<Rightarrow> string \<Rightarrow> stall_decoded option) \<Rightarrow> operation list \<Rightarrow> db \<Rightarrow> db" where
  "run_operations qr verifyStall [] d = d"
| "run_operations qr verifyStall (x # xs) d =
     run_operations qr verifyStall xs (apply_operation qr verifyStall x d)"

text \<open>What \<^verbatim>\<open>scanStall\<close> shows of a stall's row.\<close>

definition view_of :: "stall \<Rightarrow> stall_view" where
  "view_of stall =
     \<lparr>view_id = st_id stall, view_stall_number = st_stall_number stall,
      view_stall_name = st_stall_name stall, view_school_name = st_school_name stall,
      view_description = st_description stall, view_location = st_location stall\<rparr>"

section \<open>A gate, a student and a stall to run the handlers on\<close>

definition demo_student :: student where
  "demo_student =
     \<lparr>s_id = ''s1'', s_full_name = ''Asha'', s_registration_no = ''REG001'',
      s_school_name = ''SOET'', is_inside_event = False, last_checkin_at = None,
      last_checkout_at = None, total_scan_count = 0, total_active_duration_minutes = 0,
      s_feedback_count = 0\<rparr>"

definition demo_volunteer :: volunteer where
  "demo_volunteer =
     \<lparr>v_id = ''v1'', v_email = ''gate@sgtu.ac.in'', v_full_name = ''Ravi'',
      v_assigned_location = ''Gate 1'', v_is_active = True, total_scans_performed = 0\<rparr>"

definition demo_db :: db where
  "demo_db =
     \<lparr>students = [demo_student], volunteers = [demo_volunteer], check_in_outs = [],
      stalls = [], feedbacks = []\<rparr>"

text \<open>
  A verifier for the demonstrations: \<open>R:REG001\<close> is a valid rotating token of the
  student, \<open>S:REG001\<close> is flagged static and the static verifier rejects everything.
\<close>

definition demo_qr :: qr_service where
  "demo_qr =
     \<lparr>verifyRotatingStudentToken =
        (\<lambda>now tok. \<lparr>valid = (tok = ''R:REG001''), isStatic = (tok = ''S:REG001''),
                     d_registration_no = ''REG001''\<rparr>),
      verifyStudentQRToken = (\<lambda>now tok. None)\<rparr>"

definition demo_req :: request where
  "demo_req =
     \<lparr>qr_code_token = Some ''R:REG001'', user_id = ''v1'', user_email = ''gate@sgtu.ac.in''\<rparr>"

definition env_at :: "timestamp \<Rightarrow> fault \<Rightarrow> env" where
  "env_at t f = \<lparr>db_now = t, js_now = t, fault = f\<rparr>"

text \<open>
  The scenario of the spec: the student is scanned in at 10:00:00 and out at 10:45:30.
  The states and response bodies below are what the handler produces on the way.
\<close>

definition demo_student_inside :: student where
  "demo_student_inside =
     demo_student\<lparr>is_inside_event := True, last_checkin_at := Some 36000000,
                   total_scan_count := 1\<rparr>"

definition demo_db_inside :: db where
  "demo_db_inside =
     \<lparr>students = [demo_student_inside],
      volunteers = [demo_volunteer\<lparr>total_scans_performed := 1\<rparr>],
      check_in_outs =
        [\<lparr>cio_student_id = ''s1'', cio_volunteer_id = ''v1'', cio_scan_type = CHECKIN,
          cio_scan_number = 1, cio_duration_minutes = None\<rparr>],
      stalls = [], feedbacks = []\<rparr>"

definition demo_entry_data :: scan_data where
  "demo_entry_data =
     \<lparr>rd_student =
        \<lparr>sv_id = ''s1'', sv_full_name = ''Asha'', sv_registration_no = ''REG001'',
         sv_school_name = ''SOET'', sv_is_inside_event = True, sv_total_scan_count = 1,
         check_in_time = Some (Some 36000000), check_out_time = None,
         duration_minutes = None, duration_formatted = None\<rparr>,
      rd_action = ENTRY,
      rd_scan_details =
        \<lparr>sd_timestamp = 36000000, sd_volunteer_id = ''v1'',
         sd_volunteer_email = ''gate@sgtu.ac.in''\<rparr>,
      rd_message = ''Welcome Asha! Enjoy the event.''\<rparr>"

definition demo_db_outside :: db where
  "demo_db_outside =
     \<lparr>students =
        [demo_student_inside\<lparr>is_inside_event := False, last_checkout_at := Some 38730000,
                              total_scan_count := 2, total_active_duration_minutes := 45\<rparr>],
      volunteers = [demo_volunteer\<lparr>total_scans_performed := 2\<rparr>],
      check_in_outs =
        [\<lparr>cio_student_id = ''s1'', cio_volunteer_id = ''v1'', cio_scan_type = CHECKIN,
          cio_scan_number = 1, cio_duration_minutes = None\<rparr>,
         \<lparr>cio_student_id = ''s1'', cio_volunteer_id = ''v1'', cio_scan_type = CHECKOUT,
          cio_scan_number = 2, cio_duration_minutes = Some 45\<rparr>],
      stalls = [], feedbacks = []\<rparr>"

definition demo_exit_data :: scan_data where
  "demo_exit_data =
     \<lparr>rd_student =
        \<lparr>sv_id = ''s1'', sv_full_name = ''Asha'', sv_registration_no = ''REG001'',
         sv_school_name = ''SOET'', sv_is_inside_event = False, sv_total_scan_count = 2,
         check_in_time = None, check_out_time = Some (Some 38730000),
         duration_minutes = Some 45, duration_formatted = Some ''0h 45m''\<rparr>,
      rd_action = EXIT,
      rd_scan_details =
        \<lparr>sd_timestamp = 38730000, sd_volunteer_id = ''v1'',
         sd_volunteer_email = ''gate@sgtu.ac.in''\<rparr>,
      rd_message = ''Goodbye Asha! You spent 0h 45m at the event.''\<rparr>"

text \<open>
  The inconsistent row of section 4.4, step 5: the student is INSIDE and no entry
  time is recorded.
\<close>

definition demo_db_inconsistent :: db where
  "demo_db_inconsistent = demo_db\<lparr>students := [demo_student\<lparr>is_inside_event := True\<rparr>]\<rparr>"

text \<open>
  A morning at the gate: the student is scanned in, scanned out, shows a code that no
  longer verifies, and is scanned in again.
\<close>

definition demo_traffic :: "(env \<times> request) list" where
  "demo_traffic =
     [(env_at 36000000 NoFault, demo_req), (env_at 38730000 NoFault, demo_req),
      (env_at 39000000 NoFault, demo_req\<lparr>qr_code_token := Some ''expired''\<rparr>),
      (env_at 40000000 NoFault, demo_req)]"

text \<open>The same morning with a ledger write that fails during the second scan.\<close>

definition demo_traffic_faulty :: "(env \<times> request) list" where
  "demo_traffic_faulty =
     [(env_at 36000000 NoFault, demo_req), (env_at 38730000 LedgerWriteFails, demo_req),
      (env_at 40000000 NoFault, demo_req)]"

text \<open>
  Two stations scan the student's code half a second apart: both requests read the
  student's row from \<open>demo_db\<close> (steps 1 to 3) before either reaches its toggle, then
  the first runs to its end and the second after it.
\<close>

definition demo_first_station :: "scan_data response \<times> db" where
  "demo_first_station =
     process_scan Student_processCheckInOut (env_at 36000000 NoFault) demo_req demo_student
       demo_db"

definition demo_second_station :: "scan_data response \<times> db" where
  "demo_second_station =
     process_scan Student_processCheckInOut (env_at 36000500 NoFault) demo_req demo_student
       (snd demo_first_station)"

text \<open>The same gate with no record for the operator, and with the operator deactivated.\<close>

definition demo_db_no_operator :: db where
  "demo_db_no_operator = demo_db\<lparr>volunteers := []\<rparr>"

definition demo_db_inactive_operator :: db where
  "demo_db_inactive_operator = demo_db\<lparr>volunteers := [demo_volunteer\<lparr>v_is_active := False\<rparr>]\<rparr>"

text \<open>
  A stall and a static codec to run the stall handlers on: the signature of an asset
  is \<open>sig:\<close> followed by its id, a token is the id, a dot and the signature, and the
  decoder knows the stall's token and a forged one.
\<close>

definition demo_sign :: "string \<Rightarrow> string" where
  "demo_sign a = ''sig:'' @ a"

definition demo_encode :: "string static_token \<Rightarrow> string" where
  "demo_encode t = asset_id t @ ''.'' @ st_signature t"

definition demo_decode :: "string \<Rightarrow> string static_token option" where
  "demo_decode s =
     (if s = ''st1.sig:st1'' then Some \<lparr>asset_id = ''st1'', st_signature = ''sig:st1''\<rparr>
      else if s = ''st1.forged'' then Some \<lparr>asset_id = ''st1'', st_signature = ''forged''\<rparr>
      else None)"

definition demo_stall :: stall where
  "demo_stall =
     \<lparr>st_id = ''st1'', st_stall_number = ''12'', st_stall_name = ''Robotics'',
      st_school_name = ''SOET'', st_description = ''Line followers'', st_location = ''Hall A'',
      st_qr_code_token = Some ''st1.sig:st1'', st_total_feedback_count = 0\<rparr>"

definition demo_db_with_stall :: db where
  "demo_db_with_stall = demo_db_inside\<lparr>stalls := [demo_stall]\<rparr>"

definition demo_stall_req :: stall_request where
  "demo_stall_req = \<lparr>stall_qr_token = Some ''st1.sig:st1'', sr_user_id = ''s1''\<rparr>"

definition demo_db_stall_outside :: db where
  "demo_db_stall_outside = demo_db\<lparr>stalls := [demo_stall]\<rparr>"

definition demo_feedback_req :: feedback_request where
  "demo_feedback_req =
     \<lparr>fr_stall_id = Some ''st1'', fr_rating = Some 4, fr_comment = Some ''Great demo'',
      fr_user_id = ''s1''\<rparr>"

text \<open>
  A day at the fair: the student of \<open>demo_db_with_stall\<close> rates the stall, scans it
  again, leaves through the gate and comes back.
\<close>

definition demo_day :: "operation list" where
  "demo_day =
     [SubmitFeedback 37000000 demo_feedback_req,
      ScanStall 37100000 demo_stall_req,
      ScanStudent (env_at 38730000 NoFault) demo_req,
      ScanStudent (env_at 40000000 NoFault) demo_req]"

section \<open>Lookups and updates\<close>

lemma find_map_pres:
  "(\<And>x. P (f x) = P x) \<Longrightarrow> find P (map f xs) = map_option f (find P xs)"
  by (induction xs) auto

lemma find_Some_mem: "find P xs = Some x \<Longrightarrow> x \<in> set xs \<and> P x"
  by (induction xs) (auto split: if_splits)

lemma find_by_id_distinct:
  "distinct (map s_id ss) \<Longrightarrow> s \<in> set ss \<Longrightarrow> find (\<lambda>x. s_id x = s_id s) ss = Some s"
  by (induction ss) (auto simp: image_iff)

lemma find_distinct_id:
  "distinct (map s_id ss) \<Longrightarrow> find P ss = Some s \<Longrightarrow>
     find (\<lambda>x. s_id x = s_id s) ss = Some s"
  using find_Some_mem find_by_id_distinct by metis

lemma toggle_id [simp]: "s_id (toggle now s) = s_id s"
  by (simp add: toggle_def)

lemma toggle_inside [simp]: "is_inside_event (toggle now s) = (\<not> is_inside_event s)"
  by (simp add: toggle_def)

lemma findById_update_student:
  assumes "\<And>s. s_id (f s) = s_id s"
  shows "Student_findById j (update_student i f d) =
           map_option (\<lambda>s. if s_id s = i then f s else s) (Student_findById j d)"
  using assms
  by (simp add: Student_findById_def update_student_def find_map_pres)

lemma findById_id: "Student_findById j d = Some s \<Longrightarrow> s_id s = j"
  unfolding Student_findById_def by (auto dest: find_Some_mem)

lemma processCheckInOut_found:
  assumes "distinct (map s_id (students d))" "find P (students d) = Some s"
  shows "Student_processCheckInOut (s_id s) now d =
           (Some (toggle now s), update_student (s_id s) (toggle now) d)"
proof -
  have "find (\<lambda>x. s_id x = s_id s) (students d) = Some s"
    using assms by (rule find_distinct_id)
  then show ?thesis
    by (simp add: Student_processCheckInOut_def Student_findById_def update_student_def
        Let_def find_map_pres)
qed

lemma presence_toggle:
  "presence j (update_student i (toggle now) d) =
     (if j = i then map_option Not (presence j d) else presence j d)"
  by (cases "Student_findById j d")
    (auto simp: findById_update_student presence_def dest: findById_id)

lemma presence_updateActiveDuration [simp]:
  "presence j (Student_updateActiveDuration i m d) = presence j d"
  by (cases "Student_findById j d")
    (auto simp: Student_updateActiveDuration_def findById_update_student presence_def)

lemma presence_CheckInOut_create [simp]: "presence j (CheckInOut_create r d) = presence j d"
  by (simp add: presence_def Student_findById_def CheckInOut_create_def)

lemma presence_increment [simp]: "presence j (increment_scans_performed v d) = presence j d"
  by (simp add: presence_def Student_findById_def increment_scans_performed_def)

lemma presence_save_scan [simp]:
  "presence j (snd (save_scan f vid student upd d)) = presence j d"
  by (simp add: save_scan_def Let_def split: option.splits)

lemma ids_update_student:
  assumes "\<And>s. s_id (f s) = s_id s"
  shows "map s_id (students (update_student i f d)) = map s_id (students d)"
  using assms by (simp add: update_student_def comp_def cong: map_cong)

lemma ids_save_scan [simp]:
  "map s_id (students (snd (save_scan f vid student upd d))) = map s_id (students d)"
  by (simp add: save_scan_def Let_def CheckInOut_create_def Student_updateActiveDuration_def
      ids_update_student split: option.splits)

lemma students_increment [simp]: "students (increment_scans_performed v d) = students d"
  by (simp add: increment_scans_performed_def)

lemma ids_processCheckInOut:
  "map s_id (students (snd (Student_processCheckInOut i now d))) = map s_id (students d)"
  by (simp add: Student_processCheckInOut_def Let_def ids_update_student)

section \<open>The scan handler, step by step\<close>

lemma scan_with_not_admitted:
  assumes "admitted qr e req d = None"
  shows "\<not> is_success (fst (scanStudentQR_with pco qr e req d))
         \<and> snd (scanStudentQR_with pco qr e req d) = d"
  using assms
  by (auto simp: admitted_def scanStudentQR_with_def is_success_def
      split: option.splits if_splits)

lemma scan_with_fails_before_toggle:
  assumes "admitted qr e req d = Some student" "fails_before_toggle (fault e)"
  shows "scanStudentQR_with pco qr e req d = (NextError, d)"
  using assms
  by (auto simp: admitted_def scanStudentQR_with_def fails_before_toggle_def
      split: option.splits if_splits)

lemma scan_with_admitted:
  assumes "admitted qr e req d = Some student" and "\<not> fails_before_toggle (fault e)"
  shows "scanStudentQR_with pco qr e req d =
    (case pco (s_id student) (db_now e) d of
       (None, d1) \<Rightarrow>
         if is_inside_event student \<and> last_checkin_at student = None
            \<and> fault e \<noteq> CounterUpdateFails
         then (NextError, increment_scans_performed (user_id req) d1)
         else (NextError, d1)
     | (Some updatedStudent, d1) \<Rightarrow>
         (case save_scan (fault e) (user_id req) student updatedStudent d1 of
            (None, d2) \<Rightarrow> (NextError, d2)
          | (Some durationMinutes, d2) \<Rightarrow>
              if fault e = CounterUpdateFails then (NextError, d2)
              else (SuccessResponse
                      (responseData e req student updatedStudent durationMinutes)
                      (if \<not> is_inside_event student
                       then ''Student checked in successfully at entry gate''
                       else ''Student checked out successfully at exit gate'')
                      (if \<not> is_inside_event student then 201 else 200),
                    increment_scans_performed (user_id req) d2)))"
  using assms
  by (auto simp: admitted_def scanStudentQR_with_def fails_before_toggle_def
      split: option.splits if_splits)

lemma scan_with_two_phases:
  assumes "admitted qr e req d = Some student"
    and "fault e \<noteq> StudentLookupFails" and "fault e \<noteq> VolunteerLookupFails"
  shows "scanStudentQR_with pco qr e req d = process_scan pco e req student d"
  using assms
  by (auto simp: admitted_def scanStudentQR_with_def process_scan_def
      split: option.splits if_splits)

lemma process_scan_action:
  assumes "process_scan pco e req student d = (SuccessResponse data msg code, d')"
  shows "rd_action data = (if is_inside_event student then EXIT else ENTRY)"
  using assms
  by (auto simp: process_scan_def responseData_def Let_def
      split: if_splits prod.splits option.splits)

lemma process_scan_presence:
  assumes "fault e \<noteq> ToggleFails"
  shows "presence j (snd (process_scan Student_processCheckInOut e req student d)) =
           (if j = s_id student then map_option Not (presence j d) else presence j d)"
proof -
  let ?d1 = "update_student (s_id student) (toggle (db_now e)) d"
  have p: "Student_processCheckInOut (s_id student) (db_now e) d =
             (Student_findById (s_id student) ?d1, ?d1)"
    by (simp add: Student_processCheckInOut_def Let_def)
  have "presence j (snd (process_scan Student_processCheckInOut e req student d)) =
          presence j ?d1"
  proof (cases "Student_findById (s_id student) ?d1")
    case None
    then show ?thesis
      using assms by (simp add: process_scan_def p)
  next
    case (Some upd)
    obtain x d2 where ss: "save_scan (fault e) (user_id req) student upd ?d1 = (x, d2)"
      by (cases "save_scan (fault e) (user_id req) student upd ?d1")
    have "presence j d2 = presence j ?d1"
      using presence_save_scan[of j "fault e" "user_id req" student upd ?d1] ss by simp
    then show ?thesis
      using assms Some ss by (cases x) (simp_all add: process_scan_def p)
  qed
  then show ?thesis
    by (simp add: presence_toggle)
qed


lemma scan_with_success:
  assumes "scanStudentQR_with pco qr e req d = (SuccessResponse data msg code, d')"
  shows "\<exists>student upd d1 m d2.
       admitted qr e req d = Some student \<and> \<not> fails_before_toggle (fault e)
     \<and> pco (s_id student) (db_now e) d = (Some upd, d1)
     \<and> save_scan (fault e) (user_id req) student upd d1 = (Some m, d2)
     \<and> data = responseData e req student upd m
     \<and> msg = (if \<not> is_inside_event student
              then ''Student checked in successfully at entry gate''
              else ''Student checked out successfully at exit gate'')
     \<and> code = (if \<not> is_inside_event student then 201 else 200)
     \<and> d' = increment_scans_performed (user_id req) d2"
proof -
  have "\<exists>student. admitted qr e req d = Some student \<and> \<not> fails_before_toggle (fault e)"
    using assms
    by (auto simp: scanStudentQR_with_def admitted_def fails_before_toggle_def
        split: option.splits if_splits)
  then obtain student where adm: "admitted qr e req d = Some student"
    and nb: "\<not> fails_before_toggle (fault e)" by blast
  show ?thesis
    using assms adm nb unfolding scan_with_admitted[OF adm nb]
    by (auto split: prod.splits option.splits if_splits)
qed

lemma scan_not_admitted:
  assumes "admitted qr e req d = None"
  shows "\<not> is_success (fst (scanStudentQR qr e req d)) \<and> snd (scanStudentQR qr e req d) = d"
  using scan_with_not_admitted[OF assms] by (simp add: scanStudentQR_def)

lemma scan_fails_before_toggle:
  assumes "admitted qr e req d = Some student" "fails_before_toggle (fault e)"
  shows "scanStudentQR qr e req d = (NextError, d)"
  using scan_with_fails_before_toggle[OF assms] by (simp add: scanStudentQR_def)

lemma scan_admitted:
  assumes "admitted qr e req d = Some student"
    and "distinct (map s_id (students d))"
    and "\<not> fails_before_toggle (fault e)"
  shows "scanStudentQR qr e req d =
    (case save_scan (fault e) (user_id req) student (toggle (db_now e) student)
            (update_student (s_id student) (toggle (db_now e)) d) of
       (None, d2) \<Rightarrow> (NextError, d2)
     | (Some durationMinutes, d2) \<Rightarrow>
         if fault e = CounterUpdateFails then (NextError, d2)
         else (SuccessResponse
                 (responseData e req student (toggle (db_now e) student) durationMinutes)
                 (if \<not> is_inside_event student
                  then ''Student checked in successfully at entry gate''
                  else ''Student checked out successfully at exit gate'')
                 (if \<not> is_inside_event student then 201 else 200),
               increment_scans_performed (user_id req) d2))"
proof -
  obtain r where st: "Student_findByRegistrationNo r d = Some student"
    using assms(1) by (auto simp: admitted_def split: option.splits if_splits)
  have "Student_processCheckInOut (s_id student) (db_now e) d =
          (Some (toggle (db_now e) student),
           update_student (s_id student) (toggle (db_now e)) d)"
    using st assms(2) unfolding Student_findByRegistrationNo_def
    by (intro processCheckInOut_found)
  then show ?thesis
    unfolding scanStudentQR_def scan_with_admitted[OF assms(1,3)] by simp
qed

lemma scan_success_admitted:
  assumes "scanStudentQR qr e req d = (SuccessResponse data msg code, d')"
  shows "\<exists>student. admitted qr e req d = Some student \<and> \<not> fails_before_toggle (fault e)"
  using scan_with_success[OF assms[unfolded scanStudentQR_def]] by blast

lemma ids_scan:
  "map s_id (students (snd (scanStudentQR qr e req d))) = map s_id (students d)"
proof -
  have a: "map s_id (students d2) = map s_id (students d)"
    if "Student_processCheckInOut i now d = (x, d1)" "save_scan f vid student upd d1 = (y, d2)"
    for i now x d1 f vid student upd y d2
    using that ids_processCheckInOut[of i now d] ids_save_scan[of f vid student upd d1] by simp
  have b: "map s_id (students d1) = map s_id (students d)"
    if "Student_processCheckInOut i now d = (x, d1)" for i now x d1
    using that ids_processCheckInOut[of i now d] by simp
  show ?thesis
    by (auto simp: scanStudentQR_def scanStudentQR_with_def split: option.splits prod.splits dest: a b)
qed

lemma admitted_findById:
  assumes "admitted qr e req d = Some student" "distinct (map s_id (students d))"
  shows "Student_findById (s_id student) d = Some student"
proof -
  obtain r where "Student_findByRegistrationNo r d = Some student"
    using assms(1) by (auto simp: admitted_def split: option.splits if_splits)
  then show ?thesis
    using assms(2) unfolding Student_findByRegistrationNo_def Student_findById_def
    by (rule find_distinct_id[rotated])
qed

lemma save_scan_no_fault:
  assumes "\<not> fails_after_toggle f"
  shows "\<exists>m. fst (save_scan f vid student upd d) = Some m"
  using assms
  by (auto simp: save_scan_def fails_after_toggle_def Let_def split: option.splits)

lemma scan_success_effect:
  assumes s: "scanStudentQR qr e req d = (SuccessResponse data msg code, d')"
    and dist: "distinct (map s_id (students d))"
  shows "\<exists>student m. admitted qr e req d = Some student
     \<and> Student_findById (s_id student) d = Some student
     \<and> data = responseData e req student (toggle (db_now e) student) m
     \<and> save_scan (fault e) (user_id req) student (toggle (db_now e) student)
            (update_student (s_id student) (toggle (db_now e)) d) = (Some m, snd (save_scan (fault e) (user_id req) student (toggle (db_now e) student)
            (update_student (s_id student) (toggle (db_now e)) d)))
     \<and> d' = increment_scans_performed (user_id req) (snd (save_scan (fault e) (user_id req) student (toggle (db_now e) student)
            (update_student (s_id student) (toggle (db_now e)) d)))
     \<and> msg = (if \<not> is_inside_event student
                  then ''Student checked in successfully at entry gate''
                  else ''Student checked out successfully at exit gate'')
     \<and> code = (if \<not> is_inside_event student then 201 else 200)"
proof -
  obtain student where adm: "admitted qr e req d = Some student"
    and nb: "\<not> fails_before_toggle (fault e)"
    using scan_success_admitted[OF s] by blast
  show ?thesis
    using s scan_admitted[OF adm dist nb] admitted_findById[OF adm dist] adm
    by (auto split: prod.splits option.splits if_splits)
qed

lemma responseData_sel [simp]:
  "sv_id (rd_student (responseData e req student upd m)) = s_id upd"
  "rd_action (responseData e req student upd m) = (if is_inside_event student then EXIT else ENTRY)"
  "sv_is_inside_event (rd_student (responseData e req student upd m)) = is_inside_event upd"
  "sv_total_scan_count (rd_student (responseData e req student upd m)) = total_scan_count upd"
  by (simp_all add: responseData_def Let_def)

lemma scan_success_presence:
  assumes s: "scanStudentQR qr e req d = (SuccessResponse data msg code, d')"
    and dist: "distinct (map s_id (students d))"
  shows "presence (sv_id (rd_student data)) d = Some (rd_action data = EXIT)
     \<and> (\<forall>j. presence j d' = (if j = sv_id (rd_student data) then Some (rd_action data = ENTRY) else presence j d))"
proof -
  obtain student m where
    f: "Student_findById (s_id student) d = Some student"
    and data: "data = responseData e req student (toggle (db_now e) student) m"
    and d': "d' = increment_scans_performed (user_id req) (snd (save_scan (fault e) (user_id req) student (toggle (db_now e) student)
            (update_student (s_id student) (toggle (db_now e)) d)))"
    using scan_success_effect[OF s dist] by blast
  have p: "presence (s_id student) d = Some (is_inside_event student)"
    using f by (simp add: presence_def)
  show ?thesis
    unfolding data d' by (auto simp: presence_toggle p)
qed

lemma scan_accepts:
  assumes adm: "admitted qr e req d = Some student"
    and dist: "distinct (map s_id (students d))"
    and nb: "\<not> fails_before_toggle (fault e)" and na: "\<not> fails_after_toggle (fault e)"
  shows "\<exists>data msg code d'. scanStudentQR qr e req d = (SuccessResponse data msg code, d')"
proof -
  let ?upd = "toggle (db_now e) student"
  let ?d1 = "update_student (s_id student) (toggle (db_now e)) d"
  obtain m where m: "fst (save_scan (fault e) (user_id req) student ?upd ?d1) = Some m"
    using save_scan_no_fault[OF na] by blast
  then obtain d2 where ss: "save_scan (fault e) (user_id req) student ?upd ?d1 = (Some m, d2)"
    by (cases "save_scan (fault e) (user_id req) student ?upd ?d1") simp
  have nc: "fault e \<noteq> CounterUpdateFails"
    using na by (simp add: fails_after_toggle_def)
  show ?thesis
    using scan_admitted[OF adm dist nb] ss nc by simp
qed

lemma scan_outcomes:
  assumes dist: "distinct (map s_id (students d))" and na: "\<not> fails_after_toggle (fault e)"
  shows "(\<not> is_success (fst (scanStudentQR qr e req d)) \<and> snd (scanStudentQR qr e req d) = d)
     \<or> (\<exists>data msg code d'. scanStudentQR qr e req d = (SuccessResponse data msg code, d'))"
proof (cases "admitted qr e req d")
  case None
  then show ?thesis using scan_not_admitted by blast
next
  case (Some student)
  show ?thesis
  proof (cases "fails_before_toggle (fault e)")
    case True
    then show ?thesis using scan_fails_before_toggle[OF Some True] by (simp add: is_success_def)
  next
    case False
    then show ?thesis using scan_accepts[OF Some dist False na] by blast
  qed
qed

lemma run_alternating:
  assumes "distinct (map s_id (students d))"
    and "\<forall>x\<in>set reqs. \<not> fails_after_toggle (fault (fst x))"
    and "presence sid d = Some b"
  shows "alternating (if b then EXIT else ENTRY) (accepted_actions sid (run_scans qr reqs d))"
  using assms
proof (induction reqs arbitrary: d b)
  case Nil
  then show ?case by simp
next
  case (Cons x reqs)
  obtain e req where x: "x = (e, req)" by (cases x)
  have na: "\<not> fails_after_toggle (fault e)" using Cons.prems(2) x by simp
  have rest: "\<forall>x\<in>set reqs. \<not> fails_after_toggle (fault (fst x))" using Cons.prems(2) by simp
  obtain resp d' where sc: "scanStudentQR qr e req d = (resp, d')"
    by (cases "scanStudentQR qr e req d")
  have dist': "distinct (map s_id (students d'))"
    using ids_scan[of qr e req d] sc Cons.prems(1) by simp
  from scan_outcomes[OF Cons.prems(1) na, of qr req]
  show ?case
  proof
    assume "\<not> is_success (fst (scanStudentQR qr e req d)) \<and> snd (scanStudentQR qr e req d) = d"
    then have rej: "\<not> is_success resp" "d' = d" using sc by simp_all
    have "accepted_actions sid (resp # rs) = accepted_actions sid rs" for rs
      using rej(1) by (cases resp) (simp_all add: is_success_def)
    then show ?thesis
      using Cons.IH[OF dist' rest, of b] Cons.prems(3) rej(2) x sc by simp
  next
    assume "\<exists>data msg code d'. scanStudentQR qr e req d = (SuccessResponse data msg code, d')"
    then obtain data msg code where s: "scanStudentQR qr e req d = (SuccessResponse data msg code, d')"
      using sc by auto
    have resp: "resp = SuccessResponse data msg code" using s sc by simp
    note pr = scan_success_presence[OF s Cons.prems(1)]
    show ?thesis
    proof (cases "sv_id (rd_student data) = sid")
      case True
      have b: "b = (rd_action data = EXIT)" using pr Cons.prems(3) True by simp
      have p': "presence sid d' = Some (\<not> b)"
        using pr True b by (cases "rd_action data") simp_all
      show ?thesis
        using Cons.IH[OF dist' rest p'] x sc resp True b by (cases "rd_action data") auto
    next
      case False
      have p': "presence sid d' = Some b" using pr False Cons.prems(3) by auto
      show ?thesis
        using Cons.IH[OF dist' rest p'] x sc resp False by auto
    qed
  qed
qed

lemma scan_admitted_presence:
  assumes adm: "admitted qr e req d = Some student"
    and dist: "distinct (map s_id (students d))"
    and nb: "\<not> fails_before_toggle (fault e)"
  shows "presence j (snd (scanStudentQR qr e req d)) =
           (if j = s_id student then Some (\<not> is_inside_event student) else presence j d)"
proof -
  let ?d1 = "update_student (s_id student) (toggle (db_now e)) d"
  let ?ss = "save_scan (fault e) (user_id req) student (toggle (db_now e) student) ?d1"
  have p: "presence (s_id student) d = Some (is_inside_event student)"
    using admitted_findById[OF adm dist] by (simp add: presence_def)
  have "snd (scanStudentQR qr e req d) = snd ?ss
      \<or> snd (scanStudentQR qr e req d) = increment_scans_performed (user_id req) (snd ?ss)"
    unfolding scan_admitted[OF adm dist nb]
    by (auto split: prod.splits option.splits)
  then show ?thesis
    by (auto simp: presence_toggle p)
qed

lemma toggled_alternating:
  assumes "distinct (map s_id (students d))" and "presence sid d = Some b"
  shows "alternating (if b then EXIT else ENTRY) (toggled_actions sid qr reqs d)"
  using assms
proof (induction reqs arbitrary: d b)
  case Nil
  then show ?case by simp
next
  case (Cons x reqs)
  obtain e req where x: "x = (e, req)" by (cases x)
  let ?d' = "snd (scanStudentQR qr e req d)"
  have dist': "distinct (map s_id (students ?d'))"
    using ids_scan[of qr e req d] Cons.prems(1) by simp
  show ?case
  proof (cases "admitted qr e req d")
    case None
    then have "?d' = d" using scan_not_admitted by blast
    then show ?thesis
      using Cons.IH[OF Cons.prems] None x by simp
  next
    case (Some student)
    show ?thesis
    proof (cases "fails_before_toggle (fault e)")
      case True
      then have "?d' = d" using scan_fails_before_toggle[OF Some] by simp
      then show ?thesis
        using Cons.IH[OF Cons.prems] Some True x by simp
    next
      case False
      note pr = scan_admitted_presence[OF Some Cons.prems(1) False]
      have p: "presence (s_id student) d = Some (is_inside_event student)"
        using admitted_findById[OF Some Cons.prems(1)] by (simp add: presence_def)
      show ?thesis
      proof (cases "s_id student = sid")
        case True
        have b: "b = is_inside_event student" using p Cons.prems(2) True by simp
        have p': "presence sid ?d' = Some (\<not> b)" using pr[of sid] True b by simp
        show ?thesis
          using Cons.IH[OF dist' p'] Some False True b x
          by (cases "is_inside_event student") simp_all
      next
        case neq: False
        have p': "presence sid ?d' = Some b" using pr[of sid] neq Cons.prems(2) by auto
        show ?thesis
          using Cons.IH[OF dist' p'] Some False neq x by simp
      qed
    qed
  qed
qed

lemma accepted_eq_toggled:
  assumes "distinct (map s_id (students d))"
    and "\<forall>x\<in>set reqs. \<not> fails_after_toggle (fault (fst x))"
  shows "accepted_actions sid (run_scans qr reqs d) = toggled_actions sid qr reqs d"
  using assms
proof (induction reqs arbitrary: d)
  case Nil
  then show ?case by simp
next
  case (Cons x reqs)
  obtain e req where x: "x = (e, req)" by (cases x)
  have na: "\<not> fails_after_toggle (fault e)" using Cons.prems(2) x by simp
  have rest: "\<forall>x\<in>set reqs. \<not> fails_after_toggle (fault (fst x))" using Cons.prems(2) by simp
  obtain resp d' where sc: "scanStudentQR qr e req d = (resp, d')"
    by (cases "scanStudentQR qr e req d")
  have dist': "distinct (map s_id (students d'))"
    using ids_scan[of qr e req d] sc Cons.prems(1) by simp
  note IH = Cons.IH[OF dist' rest]
  show ?case
  proof (cases "admitted qr e req d")
    case None
    then have "\<not> is_success resp" using scan_not_admitted[OF None] sc by simp
    then have "accepted_actions sid (resp # rs) = accepted_actions sid rs" for rs
      by (cases resp) (simp_all add: is_success_def)
    then show ?thesis using IH None x sc by simp
  next
    case (Some student)
    show ?thesis
    proof (cases "fails_before_toggle (fault e)")
      case True
      then have "resp = NextError" using scan_fails_before_toggle[OF Some True] sc by simp
      then show ?thesis using IH Some True x sc by simp
    next
      case False
      obtain data msg code d'' where
        s: "scanStudentQR qr e req d = (SuccessResponse data msg code, d'')"
        using scan_accepts[OF Some Cons.prems(1) False na] by blast
      obtain student' m where a': "admitted qr e req d = Some student'"
        and data: "data = responseData e req student' (toggle (db_now e) student') m"
        using scan_success_effect[OF s Cons.prems(1)] by blast
      have st: "student' = student" using a' Some by simp
      have resp: "resp = SuccessResponse data msg code" using s sc by simp
      show ?thesis
        using IH Some False x sc resp by (simp add: data st)
    qed
  qed
qed

lemma demo_entry:
  "scanStudentQR demo_qr (env_at 36000000 NoFault) demo_req demo_db =
     (SuccessResponse demo_entry_data ''Student checked in successfully at entry gate'' 201,
      demo_db_inside)"
  by code_simp

lemma demo_exit:
  "scanStudentQR demo_qr (env_at 38730000 NoFault) demo_req demo_db_inside =
     (SuccessResponse demo_exit_data ''Student checked out successfully at exit gate'' 200,
      demo_db_outside)"
  by code_simp

section \<open>Presence alternation\<close>

text \<open>
  C1, as the code has it. For every attendee, when the scan requests are served one
  at a time and none fails after its toggle, the accepted scans alternate ENTRY,
  EXIT, ENTRY, EXIT, ..., starting from ENTRY when the attendee starts OUTSIDE. The
  facts, the first three on a table whose student ids are distinct (the primary key):

  \<^item> one accepted scan served on its own: the action in the response is ENTRY exactly
    when the attendee's presence before the toggle is OUTSIDE and EXIT exactly when it
    is INSIDE, and the scan flips the presence;
  \<^item> requests served one after the other, whatever throws: the actions decided for the
    requests that are admitted for one attendee and reach the toggle alternate,
    starting with the action the attendee's initial presence gives;
  \<^item> when no request throws after its toggle, those actions are the actions of the
    success responses for the attendee, which therefore alternate;
  \<^item> a request admitted with the row \<open>student\<close> that meets no fault in its two lookups
    is the second phase run on the database the row was read from;
  \<^item> the second phase, for every toggle function and on every database: the action
    of a success response is ENTRY exactly when the row read in step 2 says outside,
    EXIT exactly when it says inside, whatever the database says by then;
  \<^item> the second phase with the toggle of the Presence Store, unless the toggle
    statement itself throws: the attendee's presence is flipped from what the database
    says, whatever the row read in step 2 says and whatever throws afterwards.
\<close>

theorem accepted_scans_alternate:
  assumes "distinct (map s_id (students d))"
  shows "(scanStudentQR qr e req d = (SuccessResponse data msg code, d') \<longrightarrow>
            (rd_action data = ENTRY \<longleftrightarrow> presence (sv_id (rd_student data)) d = Some False) \<and>
            (rd_action data = EXIT \<longleftrightarrow> presence (sv_id (rd_student data)) d = Some True) \<and>
            presence (sv_id (rd_student data)) d' =
              map_option Not (presence (sv_id (rd_student data)) d))
       \<and> (presence sid d = Some b \<longrightarrow>
            alternating (if b then EXIT else ENTRY) (toggled_actions sid qr reqs d))
       \<and> ((\<forall>x\<in>set reqs. \<not> fails_after_toggle (fault (fst x))) \<and> presence sid d = Some b \<longrightarrow>
            accepted_actions sid (run_scans qr reqs d) = toggled_actions sid qr reqs d
            \<and> alternating (if b then EXIT else ENTRY)
                 (accepted_actions sid (run_scans qr reqs d)))
       \<and> (admitted qr e req d = Some student
            \<and> fault e \<noteq> StudentLookupFails \<and> fault e \<noteq> VolunteerLookupFails \<longrightarrow>
            scanStudentQR_with pco qr e req d = process_scan pco e req student d)
       \<and> (process_scan pco e req student dt = (SuccessResponse data msg code, dt') \<longrightarrow>
            (rd_action data = ENTRY \<longleftrightarrow> \<not> is_inside_event student)
            \<and> (rd_action data = EXIT \<longleftrightarrow> is_inside_event student))
       \<and> (fault e \<noteq> ToggleFails \<longrightarrow>
            presence (s_id student)
              (snd (process_scan Student_processCheckInOut e req student dt)) =
            map_option Not (presence (s_id student) dt))"
proof -
  have one: "(rd_action data = ENTRY \<longleftrightarrow> presence (sv_id (rd_student data)) d = Some False) \<and>
            (rd_action data = EXIT \<longleftrightarrow> presence (sv_id (rd_student data)) d = Some True) \<and>
            presence (sv_id (rd_student data)) d' =
              map_option Not (presence (sv_id (rd_student data)) d)"
    if s: "scanStudentQR qr e req d = (SuccessResponse data msg code, d')"
    using scan_success_presence[OF s assms] by (cases "rd_action data") simp_all
  have two: "alternating (if b then EXIT else ENTRY) (toggled_actions sid qr reqs d)"
    if "presence sid d = Some b"
    using that by (rule toggled_alternating[OF assms])
  have three: "accepted_actions sid (run_scans qr reqs d) = toggled_actions sid qr reqs d
            \<and> alternating (if b then EXIT else ENTRY)
                 (accepted_actions sid (run_scans qr reqs d))"
    if "(\<forall>x\<in>set reqs. \<not> fails_after_toggle (fault (fst x))) \<and> presence sid d = Some b"
    using that accepted_eq_toggled[OF assms] run_alternating[OF assms] by blast
  have four: "scanStudentQR_with pco qr e req d = process_scan pco e req student d"
    if "admitted qr e req d = Some student
          \<and> fault e \<noteq> StudentLookupFails \<and> fault e \<noteq> VolunteerLookupFails"
    using that scan_with_two_phases by blast
  have five: "(rd_action data = ENTRY \<longleftrightarrow> \<not> is_inside_event student)
            \<and> (rd_action data = EXIT \<longleftrightarrow> is_inside_event student)"
    if "process_scan pco e req student dt = (SuccessResponse data msg code, dt')"
    using process_scan_action[OF that] by simp
  have six: "presence (s_id student)
              (snd (process_scan Student_processCheckInOut e req student dt)) =
            map_option Not (presence (s_id student) dt)"
    if "fault e \<noteq> ToggleFails"
    using process_scan_presence[OF that, of "s_id student" req student dt] by simp
  show ?thesis
    using one two three four five six by blast
qed

theorem accepted_scans_alternate_witness:
  "distinct (map s_id (students demo_db))
   \<and> scanStudentQR demo_qr (env_at 36000000 NoFault) demo_req demo_db =
       (SuccessResponse demo_entry_data ''Student checked in successfully at entry gate'' 201,
        demo_db_inside)
   \<and> rd_action demo_entry_data = ENTRY
   \<and> presence ''s1'' demo_db = Some False
   \<and> presence ''s1'' demo_db_inside = Some True
   \<and> toggled_actions ''s1'' demo_qr demo_traffic_faulty demo_db = [ENTRY, EXIT, ENTRY]
   \<and> alternating ENTRY (toggled_actions ''s1'' demo_qr demo_traffic_faulty demo_db)
   \<and> accepted_actions ''s1'' (run_scans demo_qr demo_traffic demo_db) = [ENTRY, EXIT, ENTRY]
   \<and> alternating ENTRY (accepted_actions ''s1'' (run_scans demo_qr demo_traffic demo_db))
   \<and> admitted demo_qr (env_at 36000000 NoFault) demo_req demo_db = Some demo_student
   \<and> scanStudentQR_with Student_processCheckInOut demo_qr (env_at 36000000 NoFault) demo_req
         demo_db =
       process_scan Student_processCheckInOut (env_at 36000000 NoFault) demo_req demo_student
         demo_db
   \<and> process_scan Student_processCheckInOut (env_at 36000000 NoFault) demo_req demo_student
         demo_db =
       (SuccessResponse demo_entry_data ''Student checked in successfully at entry gate'' 201,
        demo_db_inside)
   \<and> is_inside_event demo_student = False
   \<and> presence ''s1''
        (snd (process_scan Student_processCheckInOut (env_at 36000500 NoFault) demo_req
                demo_student demo_db_inside)) = Some False"
proof -
  let ?e = "env_at 36000000 NoFault"
  have dist: "distinct (map s_id (students demo_db))"
    by (simp add: demo_db_def)
  have nf: "\<forall>x\<in>set demo_traffic. \<not> fails_after_toggle (fault (fst x))"
    by (simp add: demo_traffic_def env_at_def fails_after_toggle_def)
  have p: "presence ''s1'' demo_db = Some False"
    by (simp add: presence_def Student_findById_def demo_db_def demo_student_def)
  have sv: "sv_id (rd_student demo_entry_data) = ''s1''"
    by (simp add: demo_entry_data_def)
  have run: "accepted_actions ''s1'' (run_scans demo_qr demo_traffic demo_db) = [ENTRY, EXIT, ENTRY]"
    by code_simp
  have tog: "toggled_actions ''s1'' demo_qr demo_traffic_faulty demo_db = [ENTRY, EXIT, ENTRY]"
    by code_simp
  have adm: "admitted demo_qr ?e demo_req demo_db = Some demo_student"
    by code_simp
  have nofault: "fault ?e \<noteq> StudentLookupFails" "fault ?e \<noteq> VolunteerLookupFails"
    "fault (env_at 36000500 NoFault) \<noteq> ToggleFails"
    by (simp_all add: env_at_def)
  have sid: "s_id demo_student = ''s1''" "is_inside_event demo_student = False"
    by (simp_all add: demo_student_def)
  have pi: "presence ''s1'' demo_db_inside = Some True"
    by code_simp
  note one = accepted_scans_alternate[OF dist, where qr = demo_qr and e = ?e
      and req = demo_req and data = demo_entry_data
      and msg = "''Student checked in successfully at entry gate''" and code = 201
      and d' = demo_db_inside, THEN conjunct1]
  note two = accepted_scans_alternate[OF dist, where sid = "''s1''" and b = False and qr = demo_qr
      and reqs = demo_traffic_faulty, THEN conjunct2, THEN conjunct1]
  note three = accepted_scans_alternate[OF dist, where sid = "''s1''" and b = False and qr = demo_qr
      and reqs = demo_traffic, THEN conjunct2, THEN conjunct2, THEN conjunct1]
  note four = accepted_scans_alternate[OF dist, where qr = demo_qr and e = ?e
      and req = demo_req and student = demo_student and pco = Student_processCheckInOut,
      THEN conjunct2, THEN conjunct2, THEN conjunct2, THEN conjunct1]
  note five = accepted_scans_alternate[OF dist, where e = ?e
      and req = demo_req and student = demo_student and pco = Student_processCheckInOut
      and dt = demo_db and data = demo_entry_data
      and msg = "''Student checked in successfully at entry gate''" and code = 201
      and dt' = demo_db_inside,
      THEN conjunct2, THEN conjunct2, THEN conjunct2, THEN conjunct2, THEN conjunct1]
  note six = accepted_scans_alternate[OF dist, where e = "env_at 36000500 NoFault"
      and req = demo_req and student = demo_student and dt = demo_db_inside,
      THEN conjunct2, THEN conjunct2, THEN conjunct2, THEN conjunct2, THEN conjunct2]
  have c1: "rd_action demo_entry_data = ENTRY"
    using one demo_entry p sv by simp
  have c2: "alternating ENTRY (toggled_actions ''s1'' demo_qr demo_traffic_faulty demo_db)"
    using two p by simp
  have "accepted_actions ''s1'' (run_scans demo_qr demo_traffic demo_db) =
          toggled_actions ''s1'' demo_qr demo_traffic demo_db
        \<and> alternating (if False then EXIT else ENTRY)
             (accepted_actions ''s1'' (run_scans demo_qr demo_traffic demo_db))"
    using three nf p by blast
  then have "alternating (if False then EXIT else ENTRY)
               (accepted_actions ''s1'' (run_scans demo_qr demo_traffic demo_db))"
    by (rule conjunct2)
  then have c3: "alternating ENTRY
                   (accepted_actions ''s1'' (run_scans demo_qr demo_traffic demo_db))"
    by simp
  have c4: "scanStudentQR_with Student_processCheckInOut demo_qr ?e demo_req demo_db =
       process_scan Student_processCheckInOut ?e demo_req demo_student demo_db"
    using four adm nofault by blast
  then have c5: "process_scan Student_processCheckInOut ?e demo_req demo_student demo_db =
       (SuccessResponse demo_entry_data ''Student checked in successfully at entry gate'' 201,
        demo_db_inside)"
    using demo_entry by (simp add: scanStudentQR_def)
  have "rd_action demo_entry_data = ENTRY \<longleftrightarrow> \<not> is_inside_event demo_student"
    using five c5 by blast
  then have c6: "is_inside_event demo_student = False"
    using c1 by simp
  have c7: "presence ''s1''
        (snd (process_scan Student_processCheckInOut (env_at 36000500 NoFault) demo_req
                demo_student demo_db_inside)) = Some False"
    using six nofault pi by (simp add: sid)
  show ?thesis
    using dist demo_entry c1 p pi tog c2 run c3 adm c4 c5 c6 c7 by (intro conjI)
qed

text \<open>
  Accepted scans that do not alternate. In \<open>demo_traffic_faulty\<close> the ledger write of
  the second scan fails after its toggle: the student is outside again, the request
  is answered by the error handler, and the two scans that were accepted are both
  ENTRY. At \<open>demo_first_station\<close> and \<open>demo_second_station\<close> both requests are
  admitted with the row read from \<open>demo_db\<close>, where the student is outside: both
  stations are told ENTRY with status 201, and the student ends outside.
\<close>

theorem accepted_scans_repeat_entry:
  "presence ''s1'' demo_db = Some False
   \<and> accepted_actions ''s1'' (run_scans demo_qr demo_traffic_faulty demo_db) = [ENTRY, ENTRY]
   \<and> alternating ENTRY (accepted_actions ''s1'' (run_scans demo_qr demo_traffic_faulty demo_db))
       = False
   \<and> admitted demo_qr (env_at 36000000 NoFault) demo_req demo_db = Some demo_student
   \<and> admitted demo_qr (env_at 36000500 NoFault) demo_req demo_db = Some demo_student
   \<and> response_action (fst demo_first_station) = Some ENTRY
   \<and> response_status (fst demo_first_station) = Some 201
   \<and> presence ''s1'' (snd demo_first_station) = Some True
   \<and> response_action (fst demo_second_station) = Some ENTRY
   \<and> response_status (fst demo_second_station) = Some 201
   \<and> presence ''s1'' (snd demo_second_station) = Some False"
  by code_simp

section \<open>The response of an accepted scan\<close>

text \<open>
  C10. For every accepted scan, whatever the toggle function does, the success
  status follows the decided action: an ENTRY scan answers 201 with the check-in
  message and an EXIT scan answers 200 with the check-out message. The body of an ENTRY response has the check-in time and the
  welcome message and no check-out time and no duration fields; the body of an EXIT
  response has the check-out time, the duration in minutes, its formatted form and
  the goodbye message that quotes it, and no check-in time.
\<close>

theorem scan_response_by_action:
  assumes "scanStudentQR_with pco qr e req d = (SuccessResponse data msg code, d')"
  shows "(rd_action data = ENTRY \<and> code = 201
          \<and> msg = ''Student checked in successfully at entry gate''
          \<and> (\<exists>t. check_in_time (rd_student data) = Some t)
          \<and> check_out_time (rd_student data) = None
          \<and> duration_minutes (rd_student data) = None
          \<and> duration_formatted (rd_student data) = None
          \<and> (\<exists>n. rd_message data = ''Welcome '' @ n @ ''! Enjoy the event.''))
       \<or> (rd_action data = EXIT \<and> code = 200
          \<and> msg = ''Student checked out successfully at exit gate''
          \<and> check_in_time (rd_student data) = None
          \<and> (\<exists>t. check_out_time (rd_student data) = Some t)
          \<and> (\<exists>m. duration_minutes (rd_student data) = Some m
                 \<and> duration_formatted (rd_student data) = Some (format_duration m)
                 \<and> (\<exists>n. rd_message data =
                           ''Goodbye '' @ n @ ''! You spent '' @ format_duration m
                             @ '' at the event.'')))"
proof -
  obtain student upd m where data: "data = responseData e req student upd m"
    and msg: "msg = (if \<not> is_inside_event student
              then ''Student checked in successfully at entry gate''
              else ''Student checked out successfully at exit gate'')"
    and code: "code = (if \<not> is_inside_event student then 201 else 200)"
    using scan_with_success[OF assms] by blast
  show ?thesis
  proof (cases "is_inside_event student")
    case False
    then show ?thesis
      unfolding data msg code by (simp add: responseData_def Let_def)
  next
    case True
    then show ?thesis
      unfolding data msg code by (simp add: responseData_def Let_def)
  qed
qed

theorem scan_response_by_action_witness:
  "scanStudentQR_with Student_processCheckInOut demo_qr (env_at 36000000 NoFault) demo_req demo_db =
     (SuccessResponse demo_entry_data ''Student checked in successfully at entry gate'' 201,
      demo_db_inside)
   \<and> rd_action demo_entry_data = ENTRY
   \<and> duration_minutes (rd_student demo_entry_data) = None
   \<and> scanStudentQR_with Student_processCheckInOut demo_qr (env_at 38730000 NoFault) demo_req
        demo_db_inside =
     (SuccessResponse demo_exit_data ''Student checked out successfully at exit gate'' 200,
      demo_db_outside)
   \<and> rd_action demo_exit_data = EXIT
   \<and> check_in_time (rd_student demo_exit_data) = None
   \<and> duration_minutes (rd_student demo_exit_data) = Some 45"
  using scan_response_by_action[OF demo_entry[unfolded scanStudentQR_def]]
    scan_response_by_action[OF demo_exit[unfolded scanStudentQR_def]]
    demo_entry[unfolded scanStudentQR_def] demo_exit[unfolded scanStudentQR_def]
  by (simp add: demo_entry_data_def demo_exit_data_def)

section \<open>Token verification failures\<close>

text \<open>
  C7. For every pair of verifiers and every toggle function: for every presented
  token that fails verification, whatever the cause (the
  rotating verifier rejects it and does not flag it static, or the static verifier
  it falls back to answers null or invalid), the station receives the same response:
  status 400 with the message "Invalid QR code", and the database is unchanged. The
  response carries nothing of the verifier's answer, so a malformed token and a
  token with a failing signature cannot be told apart. (A request with no token, or
  an empty one, is answered before any verification: "QR code token is required".)
\<close>

theorem invalid_token_generic_message:
  assumes "qr_code_token req = Some tok" and "tok \<noteq> []"
    and "case verify_qr qr (js_now e) tok of None \<Rightarrow> True | Some dec \<Rightarrow> \<not> valid dec"
  shows "scanStudentQR_with pco qr e req d = (ErrorResponse ''Invalid QR code'' 400, d)"
  using assms by (auto simp: scanStudentQR_with_def split: option.splits)

theorem invalid_token_generic_message_witness:
  "(case verify_qr demo_qr 39000000 ''expired'' of None \<Rightarrow> True | Some dec \<Rightarrow> \<not> valid dec)
   \<and> (case verify_qr demo_qr 39000000 ''S:REG001'' of None \<Rightarrow> True | Some dec \<Rightarrow> \<not> valid dec)
   \<and> scanStudentQR demo_qr (env_at 39000000 NoFault)
         (demo_req\<lparr>qr_code_token := Some ''expired''\<rparr>) demo_db_inside =
       (ErrorResponse ''Invalid QR code'' 400, demo_db_inside)
   \<and> scanStudentQR demo_qr (env_at 39000000 NoFault)
         (demo_req\<lparr>qr_code_token := Some ''S:REG001''\<rparr>) demo_db_inside =
       (ErrorResponse ''Invalid QR code'' 400, demo_db_inside)"
proof -
  have a: "case verify_qr demo_qr (js_now (env_at 39000000 NoFault)) ''expired'' of
             None \<Rightarrow> True | Some dec \<Rightarrow> \<not> valid dec"
    by (simp add: verify_qr_def demo_qr_def env_at_def)
  have b: "case verify_qr demo_qr (js_now (env_at 39000000 NoFault)) ''S:REG001'' of
             None \<Rightarrow> True | Some dec \<Rightarrow> \<not> valid dec"
    by (simp add: verify_qr_def demo_qr_def env_at_def)
  have ra: "qr_code_token (demo_req\<lparr>qr_code_token := Some ''expired''\<rparr>) = Some ''expired''"
    and rb: "qr_code_token (demo_req\<lparr>qr_code_token := Some ''S:REG001''\<rparr>) = Some ''S:REG001''"
    by simp_all
  show ?thesis
    using invalid_token_generic_message[OF ra _ a, of Student_processCheckInOut demo_db_inside]
      invalid_token_generic_message[OF rb _ b, of Student_processCheckInOut demo_db_inside] a b
    by (simp add: env_at_def scanStudentQR_def)
qed

section \<open>Duration of a visit\<close>

lemma responseData_fields:
  "check_out_time (rd_student (responseData e req student upd m)) =
     (if is_inside_event student then Some (last_checkout_at upd) else None)"
  "duration_minutes (rd_student (responseData e req student upd m)) =
     (if is_inside_event student then Some m else None)"
  by (simp_all add: responseData_def Let_def)

lemma save_scan_duration:
  assumes "save_scan f vid student upd d1 = (Some m, d2)" and "is_inside_event student"
  shows "m = (case last_checkin_at student of
                None \<Rightarrow> 0
              | Some t \<Rightarrow> (new_Date (last_checkout_at upd) - t) div 60000)"
  using assms
  by (auto simp: save_scan_def Let_def split: option.splits if_splits)

lemma duration_nonneg: "t \<le> tout \<Longrightarrow> 0 \<le> (tout - t) div (60000::int)"
  by (simp add: pos_imp_zdiv_nonneg_iff)

text \<open>
  C2, as the code has it. For every accepted EXIT scan, whatever the toggle function
  does: the response gives the check-out time of the row the toggle returned, and
  duration_minutes is floor((that exit time - previous entry time) / 60 s) when an
  entry time is recorded and 0 when none is. The handler does not clamp: the
  duration is non-negative when the entry time is not after the exit time. An
  admitted request for a student who is INSIDE with no entry time still succeeds
  (when the toggle returns a row and nothing throws), as an EXIT with duration 0.
  With the toggle of the spec's Presence Store and distinct student ids, the exit
  time is the time of the toggle statement.
\<close>

theorem exit_duration:
  "(scanStudentQR_with pco qr e req d = (SuccessResponse data msg code, d')
      \<and> rd_action data = EXIT \<longrightarrow>
      (\<exists>student tout m. admitted qr e req d = Some student \<and> is_inside_event student
         \<and> check_out_time (rd_student data) = Some tout
         \<and> duration_minutes (rd_student data) = Some m
         \<and> (last_checkin_at student = None \<longrightarrow> m = 0)
         \<and> (\<forall>t. last_checkin_at student = Some t \<longrightarrow>
                m = (new_Date tout - t) div 60000 \<and> (t \<le> new_Date tout \<longrightarrow> 0 \<le> m))))
   \<and> (admitted qr e req d = Some student \<and> is_inside_event student
        \<and> last_checkin_at student = None
        \<and> \<not> fails_before_toggle (fault e) \<and> fault e \<noteq> CounterUpdateFails
        \<and> pco (s_id student) (db_now e) d = (Some upd, d1) \<longrightarrow>
        (\<exists>data d'. scanStudentQR_with pco qr e req d =
             (SuccessResponse data ''Student checked out successfully at exit gate'' 200, d')
           \<and> rd_action data = EXIT \<and> duration_minutes (rd_student data) = Some 0))
   \<and> (distinct (map s_id (students d))
        \<and> scanStudentQR qr e req d = (SuccessResponse data msg code, d')
        \<and> rd_action data = EXIT \<longrightarrow>
        check_out_time (rd_student data) = Some (Some (db_now e)))"
proof -
  have one: "\<exists>student tout m. admitted qr e req d = Some student \<and> is_inside_event student
         \<and> check_out_time (rd_student data) = Some tout
         \<and> duration_minutes (rd_student data) = Some m
         \<and> (last_checkin_at student = None \<longrightarrow> m = 0)
         \<and> (\<forall>t. last_checkin_at student = Some t \<longrightarrow>
                m = (new_Date tout - t) div 60000 \<and> (t \<le> new_Date tout \<longrightarrow> 0 \<le> m))"
    if a: "scanStudentQR_with pco qr e req d = (SuccessResponse data msg code, d')
           \<and> rd_action data = EXIT"
  proof -
    obtain student upd d1 m d2 where adm: "admitted qr e req d = Some student"
      and ss: "save_scan (fault e) (user_id req) student upd d1 = (Some m, d2)"
      and data: "data = responseData e req student upd m"
      using scan_with_success a by blast
    have ins: "is_inside_event student"
      using a data by (simp split: if_splits)
    note m = save_scan_duration[OF ss ins]
    show ?thesis
      apply (rule exI[of _ student], rule exI[of _ "last_checkout_at upd"], rule exI[of _ m])
      using adm ins m duration_nonneg by (auto simp: data responseData_fields)
  qed
  have two: "\<exists>data d'. scanStudentQR_with pco qr e req d =
             (SuccessResponse data ''Student checked out successfully at exit gate'' 200, d')
           \<and> rd_action data = EXIT \<and> duration_minutes (rd_student data) = Some 0"
    if a: "admitted qr e req d = Some student \<and> is_inside_event student
        \<and> last_checkin_at student = None
        \<and> \<not> fails_before_toggle (fault e) \<and> fault e \<noteq> CounterUpdateFails
        \<and> pco (s_id student) (db_now e) d = (Some upd, d1)"
  proof -
    have adm: "admitted qr e req d = Some student" and nb: "\<not> fails_before_toggle (fault e)"
      using a by simp_all
    show ?thesis
      unfolding scan_with_admitted[OF adm nb] using a
      by (simp add: save_scan_def responseData_fields)
  qed
  have three: "check_out_time (rd_student data) = Some (Some (db_now e))"
    if a: "distinct (map s_id (students d))
        \<and> scanStudentQR qr e req d = (SuccessResponse data msg code, d')
        \<and> rd_action data = EXIT"
  proof -
    obtain student m where data: "data = responseData e req student (toggle (db_now e) student) m"
      using scan_success_effect a by blast
    have ins: "is_inside_event student"
      using a data by (simp split: if_splits)
    then show ?thesis
      by (simp add: data responseData_fields toggle_def)
  qed
  show ?thesis
    using one two three by blast
qed

theorem exit_duration_witness:
  "scanStudentQR demo_qr (env_at 38730000 NoFault) demo_req demo_db_inside =
       (SuccessResponse demo_exit_data ''Student checked out successfully at exit gate'' 200,
        demo_db_outside)
   \<and> rd_action demo_exit_data = EXIT
   \<and> admitted demo_qr (env_at 38730000 NoFault) demo_req demo_db_inside = Some demo_student_inside
   \<and> last_checkin_at demo_student_inside = Some 36000000
   \<and> check_out_time (rd_student demo_exit_data) = Some (Some 38730000)
   \<and> duration_minutes (rd_student demo_exit_data) = Some ((38730000 - 36000000) div 60000)
   \<and> distinct (map s_id (students demo_db_inside))
   \<and> admitted demo_qr (env_at 38730000 NoFault) demo_req demo_db_inconsistent =
       Some (demo_student\<lparr>is_inside_event := True\<rparr>)
   \<and> last_checkin_at (demo_student\<lparr>is_inside_event := True\<rparr>) = None
   \<and> (\<exists>data d'. scanStudentQR demo_qr (env_at 38730000 NoFault) demo_req demo_db_inconsistent =
          (SuccessResponse data ''Student checked out successfully at exit gate'' 200, d')
        \<and> rd_action data = EXIT \<and> duration_minutes (rd_student data) = Some 0)"
proof -
  have d1: "distinct (map s_id (students demo_db_inside))"
    by (simp add: demo_db_inside_def)
  have act: "rd_action demo_exit_data = EXIT"
    by (simp add: demo_exit_data_def)
  have a1: "admitted demo_qr (env_at 38730000 NoFault) demo_req demo_db_inside =
              Some demo_student_inside"
    by code_simp
  have t: "last_checkin_at demo_student_inside = Some 36000000"
    by (simp add: demo_student_inside_def)
  have adm: "admitted demo_qr (env_at 38730000 NoFault) demo_req demo_db_inconsistent =
       Some (demo_student\<lparr>is_inside_event := True\<rparr>)"
    by code_simp
  have inc: "is_inside_event (demo_student\<lparr>is_inside_event := True\<rparr>)"
    "last_checkin_at (demo_student\<lparr>is_inside_event := True\<rparr>) = None"
    "\<not> fails_before_toggle (fault (env_at 38730000 NoFault))"
    "fault (env_at 38730000 NoFault) \<noteq> CounterUpdateFails"
    "db_now (env_at 38730000 NoFault) = 38730000"
    by (simp_all add: demo_student_def env_at_def fails_before_toggle_def)
  obtain upd dd where pco: "Student_processCheckInOut (s_id (demo_student\<lparr>is_inside_event := True\<rparr>))
      (db_now (env_at 38730000 NoFault)) demo_db_inconsistent = (Some upd, dd)"
    by (simp add: Student_processCheckInOut_def Student_findById_def update_student_def
        demo_db_inconsistent_def demo_db_def demo_student_def Let_def)
  note inst = exit_duration[where pco = Student_processCheckInOut and qr = demo_qr
      and e = "env_at 38730000 NoFault" and req = demo_req, folded scanStudentQR_def]
  note i1 = inst[where d = demo_db_inside and data = demo_exit_data
      and msg = "''Student checked out successfully at exit gate''" and code = 200
      and d' = demo_db_outside, THEN conjunct1]
  note i2 = inst[where d = demo_db_inconsistent
      and student = "demo_student\<lparr>is_inside_event := True\<rparr>" and upd = upd and ?d1.0 = dd,
      THEN conjunct2, THEN conjunct1]
  note i3 = inst[where d = demo_db_inside and data = demo_exit_data
      and msg = "''Student checked out successfully at exit gate''" and code = 200
      and d' = demo_db_outside, THEN conjunct2, THEN conjunct2]
  have out: "check_out_time (rd_student demo_exit_data) = Some (Some 38730000)"
    using i3 d1 demo_exit act inc(5) by simp
  have p1: "duration_minutes (rd_student demo_exit_data) = Some ((38730000 - 36000000) div 60000)"
    using i1 demo_exit act a1 t out by (auto simp: new_Date_def)
  have p2: "\<exists>data d'. scanStudentQR demo_qr (env_at 38730000 NoFault) demo_req demo_db_inconsistent =
          (SuccessResponse data ''Student checked out successfully at exit gate'' 200, d')
        \<and> rd_action data = EXIT \<and> duration_minutes (rd_student data) = Some 0"
    using i2 adm inc pco by blast
  show ?thesis
    using demo_exit act a1 t out p1 d1 adm inc(2) p2 by (intro conjI)
qed

text \<open>
  The handler on an entry time that lies two minutes after the exit time (the row
  says 10:00:00, the toggle is stamped 09:58:00): the EXIT is accepted and reports
  minus two minutes.
\<close>

theorem exit_duration_not_clamped:
  "response_action
     (fst (scanStudentQR demo_qr (env_at 35880000 NoFault) demo_req demo_db_inside)) = Some EXIT
   \<and> response_duration
     (fst (scanStudentQR demo_qr (env_at 35880000 NoFault) demo_req demo_db_inside)) = Some (- 2)"
  by code_simp

section \<open>The scan ledger\<close>

lemma save_scan_ledger:
  assumes "save_scan f vid student upd d1 = (Some m, d2)"
  shows "check_in_outs d2 =
     (if is_inside_event student \<and> last_checkin_at student = None then check_in_outs d1
      else check_in_outs d1 @
        [\<lparr>cio_student_id = s_id student, cio_volunteer_id = vid,
          cio_scan_type = (if is_inside_event student then CHECKOUT else CHECKIN),
          cio_scan_number = total_scan_count upd,
          cio_duration_minutes = (if is_inside_event student then Some m else None)\<rparr>])"
  using assms
  by (auto simp: save_scan_def Let_def CheckInOut_create_def Student_updateActiveDuration_def
      update_student_def split: option.splits if_splits)

lemma ledger_update_student [simp]: "check_in_outs (update_student i f d) = check_in_outs d"
  by (simp add: update_student_def)

lemma ledger_increment [simp]: "check_in_outs (increment_scans_performed v d) = check_in_outs d"
  by (simp add: increment_scans_performed_def)

text \<open>
  The ledger after an accepted scan: one entry more, with the action's kind, the scan
  count after the toggle and the duration of the response, except for an EXIT of a
  student without an entry time, which leaves the ledger as it was.
\<close>

lemma ledger_after_accepted_scan:
  assumes "distinct (map s_id (students d))"
    and "scanStudentQR qr e req d = (SuccessResponse data msg code, d')"
  shows "\<exists>student. Student_findById (sv_id (rd_student data)) d = Some student
     \<and> sv_total_scan_count (rd_student data) = total_scan_count student + 1
     \<and> check_in_outs d' =
         (if rd_action data = EXIT \<and> last_checkin_at student = None then check_in_outs d
          else check_in_outs d @
            [\<lparr>cio_student_id = sv_id (rd_student data), cio_volunteer_id = user_id req,
              cio_scan_type = (if rd_action data = ENTRY then CHECKIN else CHECKOUT),
              cio_scan_number = sv_total_scan_count (rd_student data),
              cio_duration_minutes = duration_minutes (rd_student data)\<rparr>])"
proof -
  obtain student m where
    f: "Student_findById (s_id student) d = Some student"
    and data: "data = responseData e req student (toggle (db_now e) student) m"
    and ss: "save_scan (fault e) (user_id req) student (toggle (db_now e) student)
            (update_student (s_id student) (toggle (db_now e)) d) = (Some m, snd (save_scan (fault e) (user_id req) student (toggle (db_now e) student)
            (update_student (s_id student) (toggle (db_now e)) d)))"
    and d': "d' = increment_scans_performed (user_id req) (snd (save_scan (fault e) (user_id req) student (toggle (db_now e) student)
            (update_student (s_id student) (toggle (db_now e)) d)))"
    using scan_success_effect[OF assms(2,1)] by blast
  have cnt: "total_scan_count (toggle (db_now e) student) = total_scan_count student + 1"
    by (simp add: toggle_def)
  show ?thesis
    apply (rule exI[of _ student])
    using f cnt save_scan_ledger[OF ss]
    by (auto simp: data d' responseData_fields)
qed

text \<open>
  C3 says that every accepted scan, ENTRY or EXIT, creates exactly one ledger entry.
  The handler on a student who is INSIDE with no recorded entry time: the EXIT is
  accepted with status 200 and the student is toggled to OUTSIDE, and the ledger is
  as empty as before. The write of the CHECKOUT entry stands inside the branch
  guarded by the entry time (line 276).
\<close>

theorem exit_without_entry_time_writes_no_ledger_entry:
  "response_action
     (fst (scanStudentQR demo_qr (env_at 38730000 NoFault) demo_req demo_db_inconsistent)) = Some EXIT
   \<and> response_status
     (fst (scanStudentQR demo_qr (env_at 38730000 NoFault) demo_req demo_db_inconsistent)) = Some 200
   \<and> presence ''s1''
     (snd (scanStudentQR demo_qr (env_at 38730000 NoFault) demo_req demo_db_inconsistent)) = Some False
   \<and> check_in_outs demo_db_inconsistent = []
   \<and> check_in_outs
     (snd (scanStudentQR demo_qr (env_at 38730000 NoFault) demo_req demo_db_inconsistent)) = []"
  by code_simp

section \<open>Failure semantics\<close>

lemma findById_save_scan_count:
  assumes "Student_findById j d = Some s"
  shows "\<exists>s'. Student_findById j (snd (save_scan f vid student upd d)) = Some s'
          \<and> total_scan_count s' = total_scan_count s"
  using assms
  by (auto simp: save_scan_def Let_def CheckInOut_create_def Student_findById_def
      Student_updateActiveDuration_def update_student_def find_map_pres split: option.splits)

lemma findById_increment [simp]:
  "Student_findById j (increment_scans_performed v d) = Student_findById j d"
  by (simp add: Student_findById_def)

lemma scan_toggle_persists:
  assumes adm: "admitted qr e req d = Some student"
    and dist: "distinct (map s_id (students d))"
    and nb: "\<not> fails_before_toggle (fault e)"
  shows "(fst (scanStudentQR qr e req d) = NextError \<or> is_success (fst (scanStudentQR qr e req d)))
     \<and> presence (s_id student) (snd (scanStudentQR qr e req d)) = Some (\<not> is_inside_event student)
     \<and> (\<exists>s'. Student_findById (s_id student) (snd (scanStudentQR qr e req d)) = Some s'
            \<and> total_scan_count s' = total_scan_count student + 1)"
proof -
  let ?d1 = "update_student (s_id student) (toggle (db_now e)) d"
  let ?ss = "save_scan (fault e) (user_id req) student (toggle (db_now e) student) ?d1"
  have f: "Student_findById (s_id student) d = Some student"
    by (rule admitted_findById[OF adm dist])
  have p: "presence (s_id student) d = Some (is_inside_event student)"
    using f by (simp add: presence_def)
  have f1: "Student_findById (s_id student) ?d1 = Some (toggle (db_now e) student)"
    using f by (simp add: findById_update_student)
  obtain s' where s': "Student_findById (s_id student) (snd ?ss) = Some s'"
    "total_scan_count s' = total_scan_count (toggle (db_now e) student)"
    using findById_save_scan_count[OF f1] by blast
  have cnt: "total_scan_count (toggle (db_now e) student) = total_scan_count student + 1"
    by (simp add: toggle_def)
  have snd_eq: "snd (scanStudentQR qr e req d) = snd ?ss
      \<or> snd (scanStudentQR qr e req d) = increment_scans_performed (user_id req) (snd ?ss)"
    and fst_eq: "fst (scanStudentQR qr e req d) = NextError \<or> is_success (fst (scanStudentQR qr e req d))"
    unfolding scan_admitted[OF adm dist nb]
    by (auto simp: is_success_def split: prod.splits option.splits)
  have pres: "presence (s_id student) (snd (scanStudentQR qr e req d)) = Some (\<not> is_inside_event student)"
    using snd_eq by (auto simp: presence_toggle p)
  have "\<exists>s'. Student_findById (s_id student) (snd (scanStudentQR qr e req d)) = Some s'
            \<and> total_scan_count s' = total_scan_count student + 1"
    using snd_eq s' cnt by auto
  then show ?thesis using fst_eq pres by blast
qed

lemma scan_with_presence:
  assumes adm: "admitted qr e req d = Some student" and nb: "\<not> fails_before_toggle (fault e)"
  shows "(fst (scanStudentQR_with pco qr e req d) = NextError
            \<or> is_success (fst (scanStudentQR_with pco qr e req d)))
       \<and> presence j (snd (scanStudentQR_with pco qr e req d)) =
           presence j (snd (pco (s_id student) (db_now e) d))"
proof -
  obtain r d1 where p: "pco (s_id student) (db_now e) d = (r, d1)"
    by (cases "pco (s_id student) (db_now e) d")
  show ?thesis
  proof (cases r)
    case None
    then show ?thesis
      unfolding scan_with_admitted[OF adm nb] p by simp
  next
    case (Some upd)
    obtain x d2 where ss: "save_scan (fault e) (user_id req) student upd d1 = (x, d2)"
      by (cases "save_scan (fault e) (user_id req) student upd d1")
    have d2: "presence j d2 = presence j d1"
      using presence_save_scan[of j "fault e" "user_id req" student upd d1] ss by simp
    show ?thesis
      unfolding scan_with_admitted[OF adm nb] p Some
      using ss d2 by (cases x) (simp_all add: is_success_def)
  qed
qed

text \<open>
  C4. For every scan request, whatever the toggle function does: when the token is
  missing or fails verification, no student has the registration number, the operator
  is refused, or a statement up to and including the toggle throws, the request fails
  and the database is unchanged. When the request is admitted and the toggle has run,
  the request either succeeds or ends in the error handler (a later statement threw),
  and in both cases every attendee's presence in the database the request leaves is
  the presence the toggle left: nothing rolls the toggle back. With the toggle of the
  spec's Presence Store and distinct student ids, that presence is the student's
  previous one flipped, and the scan count is one higher.
\<close>

theorem scan_failure_semantics:
  "((admitted qr e req d = None \<or> fails_before_toggle (fault e)) \<longrightarrow>
      \<not> is_success (fst (scanStudentQR_with pco qr e req d))
      \<and> snd (scanStudentQR_with pco qr e req d) = d)
   \<and> (admitted qr e req d = Some student \<and> \<not> fails_before_toggle (fault e) \<longrightarrow>
        (fst (scanStudentQR_with pco qr e req d) = NextError
           \<or> is_success (fst (scanStudentQR_with pco qr e req d)))
        \<and> (\<forall>j. presence j (snd (scanStudentQR_with pco qr e req d)) =
                 presence j (snd (pco (s_id student) (db_now e) d))))
   \<and> (distinct (map s_id (students d)) \<and> admitted qr e req d = Some student
        \<and> \<not> fails_before_toggle (fault e) \<longrightarrow>
        presence (s_id student) (snd (scanStudentQR qr e req d)) =
          Some (\<not> is_inside_event student)
        \<and> (\<exists>s'. Student_findById (s_id student) (snd (scanStudentQR qr e req d)) = Some s'
               \<and> total_scan_count s' = total_scan_count student + 1))"
proof -
  have before: "\<not> is_success (fst (scanStudentQR_with pco qr e req d))
            \<and> snd (scanStudentQR_with pco qr e req d) = d"
    if a: "admitted qr e req d = None \<or> fails_before_toggle (fault e)"
  proof (cases "admitted qr e req d")
    case None
    then show ?thesis by (rule scan_with_not_admitted)
  next
    case (Some student)
    then have "fails_before_toggle (fault e)" using a by simp
    then show ?thesis
      using scan_with_fails_before_toggle[OF Some] by (simp add: is_success_def)
  qed
  have after: "(fst (scanStudentQR_with pco qr e req d) = NextError
           \<or> is_success (fst (scanStudentQR_with pco qr e req d)))
        \<and> (\<forall>j. presence j (snd (scanStudentQR_with pco qr e req d)) =
                 presence j (snd (pco (s_id student) (db_now e) d)))"
    if "admitted qr e req d = Some student \<and> \<not> fails_before_toggle (fault e)"
    using that scan_with_presence by blast
  have flip: "presence (s_id student) (snd (scanStudentQR qr e req d)) =
          Some (\<not> is_inside_event student)
        \<and> (\<exists>s'. Student_findById (s_id student) (snd (scanStudentQR qr e req d)) = Some s'
               \<and> total_scan_count s' = total_scan_count student + 1)"
    if "distinct (map s_id (students d)) \<and> admitted qr e req d = Some student
        \<and> \<not> fails_before_toggle (fault e)"
    using that scan_toggle_persists by blast
  show ?thesis
    using before after flip by blast
qed

theorem scan_failure_semantics_witness:
  "admitted demo_qr (env_at 36000000 NoFault)
        (demo_req\<lparr>qr_code_token := Some ''expired''\<rparr>) demo_db = None
   \<and> scanStudentQR demo_qr (env_at 36000000 NoFault)
        (demo_req\<lparr>qr_code_token := Some ''expired''\<rparr>) demo_db =
       (ErrorResponse ''Invalid QR code'' 400, demo_db)
   \<and> distinct (map s_id (students demo_db))
   \<and> admitted demo_qr (env_at 36000000 LedgerWriteFails) demo_req demo_db = Some demo_student
   \<and> \<not> fails_before_toggle (fault (env_at 36000000 LedgerWriteFails))
   \<and> fst (scanStudentQR demo_qr (env_at 36000000 LedgerWriteFails) demo_req demo_db) = NextError
   \<and> presence ''s1'' demo_db = Some False
   \<and> presence ''s1'' (snd (Student_processCheckInOut ''s1'' 36000000 demo_db)) = Some True
   \<and> presence ''s1''
       (snd (scanStudentQR demo_qr (env_at 36000000 LedgerWriteFails) demo_req demo_db)) = Some True"
proof -
  have dist: "distinct (map s_id (students demo_db))"
    by (simp add: demo_db_def)
  have a1: "admitted demo_qr (env_at 36000000 NoFault)
        (demo_req\<lparr>qr_code_token := Some ''expired''\<rparr>) demo_db = None"
    by code_simp
  have r1: "scanStudentQR demo_qr (env_at 36000000 NoFault)
        (demo_req\<lparr>qr_code_token := Some ''expired''\<rparr>) demo_db =
       (ErrorResponse ''Invalid QR code'' 400, demo_db)"
    by code_simp
  have a2: "admitted demo_qr (env_at 36000000 LedgerWriteFails) demo_req demo_db = Some demo_student"
    by code_simp
  have nb: "\<not> fails_before_toggle (fault (env_at 36000000 LedgerWriteFails))"
    by (simp add: env_at_def fails_before_toggle_def)
  have r2: "fst (scanStudentQR demo_qr (env_at 36000000 LedgerWriteFails) demo_req demo_db) = NextError"
    by code_simp
  have p: "presence ''s1'' demo_db = Some False"
    by code_simp
  have pt: "presence ''s1'' (snd (Student_processCheckInOut ''s1'' 36000000 demo_db)) = Some True"
    by code_simp
  have s: "s_id demo_student = ''s1''" "\<not> is_inside_event demo_student"
    "db_now (env_at 36000000 LedgerWriteFails) = 36000000"
    by (simp_all add: demo_student_def env_at_def)
  note inst = scan_failure_semantics[where pco = Student_processCheckInOut and qr = demo_qr
      and d = demo_db, folded scanStudentQR_def]
  note i1 = inst[where e = "env_at 36000000 NoFault"
      and req = "demo_req\<lparr>qr_code_token := Some ''expired''\<rparr>", THEN conjunct1]
  note i2 = inst[where e = "env_at 36000000 LedgerWriteFails" and req = demo_req
      and student = demo_student, THEN conjunct2, THEN conjunct1]
  note i3 = inst[where e = "env_at 36000000 LedgerWriteFails" and req = demo_req
      and student = demo_student, THEN conjunct2, THEN conjunct2]
  have same: "presence ''s1''
       (snd (scanStudentQR demo_qr (env_at 36000000 LedgerWriteFails) demo_req demo_db)) =
     presence ''s1'' (snd (Student_processCheckInOut ''s1'' 36000000 demo_db))"
    using i2 a2 nb s by simp
  have flipped: "presence ''s1''
       (snd (scanStudentQR demo_qr (env_at 36000000 LedgerWriteFails) demo_req demo_db)) = Some True"
    using i3 dist a2 nb s by simp
  have unchanged: "snd (scanStudentQR demo_qr (env_at 36000000 NoFault)
        (demo_req\<lparr>qr_code_token := Some ''expired''\<rparr>) demo_db) = demo_db"
    using i1 a1 by simp
  show ?thesis
    using a1 r1 dist a2 nb r2 p pt flipped by (intro conjI)
qed

section \<open>The operator check\<close>

text \<open>
  C6, as the code has it. Whatever the toggle function does: for every scan request
  whose token verifies and whose student is found (and whose lookups do not throw),
  the request fails with status 403, "Your volunteer account is inactive. Contact
  admin.", and an unchanged database exactly when the operator's volunteer record
  exists and is inactive. The check stands before the toggle. An operator without a
  volunteer record is not refused by it.
\<close>

theorem inactive_operator_forbidden:
  assumes "qr_code_token req = Some tok" and "tok \<noteq> []"
    and "verify_qr qr (js_now e) tok = Some dec" and "valid dec"
    and "Student_findByRegistrationNo (d_registration_no dec) d = Some student"
    and "fault e \<noteq> StudentLookupFails" and "fault e \<noteq> VolunteerLookupFails"
  shows "scanStudentQR_with pco qr e req d =
           (ErrorResponse ''Your volunteer account is inactive. Contact admin.'' 403, d)
         \<longleftrightarrow> (\<exists>v. Volunteer_findById (user_id req) d = Some v \<and> \<not> v_is_active v)"
proof (cases "Volunteer_findById (user_id req) d")
  case None
  then have adm: "admitted qr e req d = Some student"
    using assms by (simp add: admitted_def)
  show ?thesis
  proof (cases "fails_before_toggle (fault e)")
    case True
    then show ?thesis using scan_with_fails_before_toggle[OF adm True] None by simp
  next
    case False
    show ?thesis
      unfolding scan_with_admitted[OF adm False] using None
      by (auto split: prod.splits option.splits)
  qed
next
  case (Some v)
  show ?thesis
  proof (cases "v_is_active v")
    case False
    then show ?thesis
      using assms Some by (simp add: scanStudentQR_with_def)
  next
    case True
    then have adm: "admitted qr e req d = Some student"
      using assms Some by (simp add: admitted_def)
    show ?thesis
    proof (cases "fails_before_toggle (fault e)")
      case t: True
      then show ?thesis using scan_with_fails_before_toggle[OF adm t] Some True by simp
    next
      case f: False
      show ?thesis
        unfolding scan_with_admitted[OF adm f] using Some True
        by (auto split: prod.splits option.splits)
    qed
  qed
qed

theorem inactive_operator_forbidden_witness:
  "verify_qr demo_qr 36000000 ''R:REG001'' =
     Some \<lparr>valid = True, isStatic = False, d_registration_no = ''REG001''\<rparr>
   \<and> Student_findByRegistrationNo ''REG001'' demo_db_inactive_operator = Some demo_student
   \<and> Volunteer_findById ''v1'' demo_db_inactive_operator =
       Some (demo_volunteer\<lparr>v_is_active := False\<rparr>)
   \<and> scanStudentQR demo_qr (env_at 36000000 NoFault) demo_req demo_db_inactive_operator =
       (ErrorResponse ''Your volunteer account is inactive. Contact admin.'' 403,
        demo_db_inactive_operator)"
proof -
  have t: "qr_code_token demo_req = Some ''R:REG001''" "''R:REG001'' \<noteq> []"
    by (simp_all add: demo_req_def)
  have v: "verify_qr demo_qr (js_now (env_at 36000000 NoFault)) ''R:REG001'' =
     Some \<lparr>valid = True, isStatic = False, d_registration_no = ''REG001''\<rparr>"
    by (simp add: verify_qr_def demo_qr_def env_at_def)
  have s: "Student_findByRegistrationNo
             (d_registration_no \<lparr>valid = True, isStatic = False, d_registration_no = ''REG001''\<rparr>)
             demo_db_inactive_operator = Some demo_student"
    by (simp add: Student_findByRegistrationNo_def demo_db_inactive_operator_def demo_db_def
        demo_student_def)
  have f: "fault (env_at 36000000 NoFault) \<noteq> StudentLookupFails"
    "fault (env_at 36000000 NoFault) \<noteq> VolunteerLookupFails"
    by (simp_all add: env_at_def)
  have vol: "Volunteer_findById (user_id demo_req) demo_db_inactive_operator =
       Some (demo_volunteer\<lparr>v_is_active := False\<rparr>)"
    by (simp add: Volunteer_findById_def demo_db_inactive_operator_def demo_db_def
        demo_volunteer_def demo_req_def)
  have u: "user_id demo_req = ''v1''" "js_now (env_at 36000000 NoFault) = 36000000"
    by (simp_all add: demo_req_def env_at_def)
  note inst = inactive_operator_forbidden[OF t v _ s f, of Student_processCheckInOut]
  show ?thesis
    using inst v s vol u by (simp add: scanStudentQR_def)
qed

text \<open>
  The handler on an operator whose token names no volunteer row: the scan is accepted
  (201, ENTRY) and the student is toggled.
\<close>

theorem missing_operator_record_is_admitted:
  "Volunteer_findById (user_id demo_req) demo_db_no_operator = None
   \<and> response_status
       (fst (scanStudentQR demo_qr (env_at 36000000 NoFault) demo_req demo_db_no_operator)) = Some 201
   \<and> response_action
       (fst (scanStudentQR demo_qr (env_at 36000000 NoFault) demo_req demo_db_no_operator)) = Some ENTRY
   \<and> presence ''s1'' demo_db_no_operator = Some False
   \<and> presence ''s1''
       (snd (scanStudentQR demo_qr (env_at 36000000 NoFault) demo_req demo_db_no_operator)) = Some True"
  by code_simp

section \<open>The rotating token\<close>

lemma candidate_windows_set:
  "w \<in> set (candidate_windows now) \<longleftrightarrow> \<bar>time_window_index now - w\<bar> \<le> GRACE_PERIOD_WINDOWS"
  by (auto simp: candidate_windows_def)

lemma within_grace_seconds:
  assumes "\<bar>tv - t\<bar> \<le> grace_period_seconds"
  shows "\<bar>time_window_index tv - time_window_index t\<bar> \<le> GRACE_PERIOD_WINDOWS"
proof -
  have a: "tv \<le> t + 60" "t \<le> tv + 60"
    using assms
    by (simp_all add: grace_period_seconds_def GRACE_PERIOD_WINDOWS_def
        ROTATION_INTERVAL_SECONDS_def)
  have "tv div 30 \<le> (t + 60) div 30" using a(1) by (rule zdiv_mono1) simp
  moreover have "t div 30 \<le> (tv + 60) div 30" using a(2) by (rule zdiv_mono1) simp
  ultimately show ?thesis
    by (simp add: time_window_index_def GRACE_PERIOD_WINDOWS_def ROTATION_INTERVAL_SECONDS_def)
qed

text \<open>
  C5. For every rotating token generated at time \<open>t\<close>, Verify accepts it at a
  verification time exactly when the window index of that time is within the grace
  period (2 windows of 30 seconds) of the window index of \<open>t\<close>, and answers
  InvalidOrExpired at every other time. In particular a token issued for window 100
  verifies at windows 98 to 102 and is rejected at windows 97 and 103, and every
  verification time within the advertised grace period of 60 seconds of \<open>t\<close> is
  accepted. The encoding decodes what it encoded, and the signatures of one attendee
  for different windows differ.
\<close>

theorem rotating_token_grace_window:
  assumes codec: "\<And>tok. decode (encode tok) = Some tok"
    and sig: "inj (sign reg)"
  shows "Verify sign decode (Issue sign encode reg t) tv =
           (if \<bar>time_window_index tv - time_window_index t\<bar> \<le> GRACE_PERIOD_WINDOWS
            then Valid reg else InvalidOrExpired)
       \<and> (\<bar>tv - t\<bar> \<le> grace_period_seconds \<longrightarrow>
            Verify sign decode (Issue sign encode reg t) tv = Valid reg)"
proof -
  have "list_ex (\<lambda>w. sign reg (time_window_index t) = sign reg w) (candidate_windows tv)
          \<longleftrightarrow> time_window_index t \<in> set (candidate_windows tv)"
    using sig by (auto simp: list_ex_iff inj_eq)
  then have v: "Verify sign decode (Issue sign encode reg t) tv =
           (if \<bar>time_window_index tv - time_window_index t\<bar> \<le> GRACE_PERIOD_WINDOWS
            then Valid reg else InvalidOrExpired)"
    by (simp add: Verify_def Issue_def codec candidate_windows_set)
  show ?thesis
    using v within_grace_seconds[of tv t] by simp
qed

theorem rotating_token_grace_window_witness:
  "inj (Pair ''REG001'' :: int \<Rightarrow> string \<times> int)
   \<and> time_window_index 3000 = 100
   \<and> map time_window_index [2939, 2940, 2970, 3029, 3059, 3089, 3090] =
       [97, 98, 99, 100, 101, 102, 103]
   \<and> map (Verify Pair Some (Issue Pair (\<lambda>tok. tok) ''REG001'' 3000))
        [2939, 2940, 2970, 3029, 3059, 3089, 3090] =
       [InvalidOrExpired, Valid ''REG001'', Valid ''REG001'', Valid ''REG001'',
        Valid ''REG001'', Valid ''REG001'', InvalidOrExpired]
   \<and> \<bar>3060 - 3000\<bar> \<le> grace_period_seconds
   \<and> Verify Pair Some (Issue Pair (\<lambda>tok. tok) ''REG001'' 3000) 3060 = Valid ''REG001''"
proof -
  have i: "inj (Pair ''REG001'' :: int \<Rightarrow> string \<times> int)"
    by (simp add: inj_on_def)
  have c: "\<And>tok :: (string \<times> int) rotating_token. Some ((\<lambda>tok. tok) tok) = Some tok"
    by simp
  have w: "time_window_index 3000 = 100"
    "map time_window_index [2939, 2940, 2970, 3029, 3059, 3089, 3090] =
       [97, 98, 99, 100, 101, 102, 103]"
    by (simp_all add: time_window_index_def ROTATION_INTERVAL_SECONDS_def)
  have g: "\<bar>3060 - 3000\<bar> \<le> grace_period_seconds"
    by (simp add: grace_period_seconds_def GRACE_PERIOD_WINDOWS_def
        ROTATION_INTERVAL_SECONDS_def)
  note inst = rotating_token_grace_window[of Some "\<lambda>tok. tok" Pair "''REG001''", OF c i,
      of 3000]
  have late: "Verify Pair Some (Issue Pair (\<lambda>tok. tok) ''REG001'' 3000) 3060 = Valid ''REG001''"
    using inst[of 3060, THEN conjunct2] g by simp
  show ?thesis
    using i w g late by (simp add: inst[THEN conjunct1] GRACE_PERIOD_WINDOWS_def)
qed

section \<open>The static token\<close>

lemma stalls_update_student [simp]: "stalls (update_student i f d) = stalls d"
  by (simp add: update_student_def)

lemma stalls_save_scan [simp]: "stalls (snd (save_scan f vid student upd d)) = stalls d"
  by (simp add: save_scan_def Let_def CheckInOut_create_def Student_updateActiveDuration_def
      split: option.splits)

lemma stalls_increment [simp]: "stalls (increment_scans_performed v d) = stalls d"
  by (simp add: increment_scans_performed_def)

lemma stalls_scanStudentQR: "stalls (snd (scanStudentQR qr e req d)) = stalls d"
proof -
  have a: "stalls d2 = stalls d"
    if "Student_processCheckInOut i now d = (x, d1)" "save_scan f vid student upd d1 = (y, d2)"
    for i now x d1 f vid student upd y d2
  proof -
    have "d1 = update_student i (toggle now) d"
      using that(1) by (auto simp: Student_processCheckInOut_def Let_def)
    moreover have "d2 = snd (save_scan f vid student upd d1)"
      using that(2) by simp
    ultimately show ?thesis by simp
  qed
  have b: "stalls d1 = stalls d"
    if "Student_processCheckInOut i now d = (x, d1)" for i now x d1
    using that by (auto simp: Student_processCheckInOut_def Let_def)
  show ?thesis
    by (auto simp: scanStudentQR_def scanStudentQR_with_def split: option.splits prod.splits
        dest: a b)
qed

lemma scanStall_reads_only: "snd (scanStall verifyStall now req d) = d"
  by (auto simp: scanStall_def Let_def split: option.splits)

text \<open>Feedback writes one column of a stall's row, the feedback counter.\<close>

lemma stalls_submitFeedback:
  "map (\<lambda>s. s\<lparr>st_total_feedback_count := 0\<rparr>) (stalls (snd (submitFeedback now req d))) =
   map (\<lambda>s. s\<lparr>st_total_feedback_count := 0\<rparr>) (stalls d)"
  by (auto simp: submitFeedback_def Let_def Feedback_create_def Student_incrementFeedbackCount_def
      split: option.splits)

lemma stalls_run_operations:
  "map (\<lambda>s. s\<lparr>st_total_feedback_count := 0\<rparr>) (stalls (run_operations qr verifyStall ops d)) =
   map (\<lambda>s. s\<lparr>st_total_feedback_count := 0\<rparr>) (stalls d)"
proof (induction ops arbitrary: d)
  case Nil
  then show ?case by simp
next
  case (Cons x ops)
  have "map (\<lambda>s. s\<lparr>st_total_feedback_count := 0\<rparr>) (stalls (apply_operation qr verifyStall x d)) =
        map (\<lambda>s. s\<lparr>st_total_feedback_count := 0\<rparr>) (stalls d)"
    by (cases x) (simp_all add: stalls_scanStudentQR scanStall_reads_only stalls_submitFeedback)
  then show ?case
    using Cons.IH[of "apply_operation qr verifyStall x d"] by simp
qed

lemma findByQRToken_cong:
  assumes "map (\<lambda>s. s\<lparr>st_total_feedback_count := 0\<rparr>) (stalls d') =
           map (\<lambda>s. s\<lparr>st_total_feedback_count := 0\<rparr>) (stalls d)"
  shows "map_option (\<lambda>s. s\<lparr>st_total_feedback_count := 0\<rparr>) (Stall_findByQRToken tok d') =
         map_option (\<lambda>s. s\<lparr>st_total_feedback_count := 0\<rparr>) (Stall_findByQRToken tok d)"
proof -
  have "find (\<lambda>s. st_qr_code_token s = Some tok)
          (map (\<lambda>s. s\<lparr>st_total_feedback_count := 0\<rparr>) xs) =
        map_option (\<lambda>s. s\<lparr>st_total_feedback_count := 0\<rparr>)
          (find (\<lambda>s. st_qr_code_token s = Some tok) xs)" for xs
    by (rule find_map_pres) simp
  then show ?thesis
    using assms unfolding Stall_findByQRToken_def by metis
qed

lemma view_of_count [simp]: "view_of (s\<lparr>st_total_feedback_count := n\<rparr>) = view_of s"
  by (simp add: view_of_def)

lemma findByQRToken_after_operations:
  assumes "Stall_findByQRToken tok d = Some stall"
  shows "\<exists>stall'. Stall_findByQRToken tok (run_operations qr verifyStall ops d) = Some stall'
           \<and> view_of stall' = view_of stall"
proof -
  note c = findByQRToken_cong[OF stalls_run_operations, of tok qr verifyStall ops d]
  then obtain stall' where s: "Stall_findByQRToken tok (run_operations qr verifyStall ops d) = Some stall'"
    and e: "stall'\<lparr>st_total_feedback_count := 0\<rparr> = stall\<lparr>st_total_feedback_count := 0\<rparr>"
    using assms by auto
  have "view_of (stall'\<lparr>st_total_feedback_count := 0\<rparr>) = view_of (stall\<lparr>st_total_feedback_count := 0\<rparr>)"
    using e by simp
  then show ?thesis using s by simp
qed

lemma scanStall_invalid_iff:
  assumes "stall_qr_token req = Some tok" "tok \<noteq> []"
  shows "fst (scanStall verifyStall now req d) = ErrorResponse ''Invalid stall QR code'' 400
           \<longleftrightarrow> (case verifyStall now tok of None \<Rightarrow> True | Some v \<Rightarrow> \<not> sd_valid v)"
  using assms by (auto simp: scanStall_def Let_def split: option.splits)

lemma scanStall_clock:
  assumes "stall_qr_token req = Some tok" "verifyStall later tok = verifyStall now tok"
  shows "scanStall verifyStall later req d = scanStall verifyStall now req d"
  using assms by (simp add: scanStall_def)

lemma scanStall_success:
  assumes "stall_qr_token req = Some tok" "tok \<noteq> []"
    "verifyStall now tok = Some v" "sd_valid v"
    "Stall_findByQRToken tok d = Some stall" "presence (sr_user_id req) d = Some True"
  shows "\<exists>data. scanStall verifyStall now req d =
                  (SuccessResponse data ''Stall scanned successfully'' 200, d)
               \<and> ssd_stall data = view_of stall"
  using assms by (auto simp: scanStall_def Let_def presence_def view_of_def split: option.splits)

lemma scanStall_success_iff:
  assumes "stall_qr_token req = Some tok" "tok \<noteq> []"
  shows "is_success (fst (scanStall verifyStall now req d)) \<longleftrightarrow>
           (\<exists>v. verifyStall now tok = Some v \<and> sd_valid v)
         \<and> (\<exists>stall \<in> set (stalls d). st_qr_code_token stall = Some tok)
         \<and> presence (sr_user_id req) d = Some True"
proof -
  have f: "(\<exists>stall \<in> set (stalls d). st_qr_code_token stall = Some tok) \<longleftrightarrow>
           Stall_findByQRToken tok d \<noteq> None"
    by (auto simp: Stall_findByQRToken_def find_None_iff)
  show ?thesis
    unfolding f using assms
    by (auto simp: scanStall_def Let_def presence_def is_success_def split: option.splits)
qed

text \<open>
  C8. For every static token issued for a stall, verification succeeds whatever the
  clock reads: the verifier checks the signature and nothing else, and it fails only
  for a token that does not decode to a token whose signature is the signature of its
  asset id. At the handler, for every verifier and every request with a token:
  \<^verbatim>\<open>scanStall\<close> answers 400 "Invalid stall QR code" exactly when the verifier
  rejects the token, it succeeds exactly when the verifier accepts the token, some
  stall's row holds it and the student is INSIDE, it writes nothing, and the clock
  reaches its answer through the verifier's verdict only. And the
  token does not age in the table: when a stall's row holds the issued token, then
  after any sequence of gate scans, stall scans and feedback submissions, and at
  every time, a student who is INSIDE and scans the token gets the success with the
  data of the stall \<^verbatim>\<open>Stall.findByQRToken\<close> gave at first, a row that holds the
  token. The codec decodes the issued token.
\<close>

theorem static_token_never_expires:
  assumes codec: "decode (generateStallQRToken sign encode a) =
                    Some \<lparr>asset_id = a, st_signature = sign a\<rparr>"
  shows "verifyStallQRToken sign decode now (generateStallQRToken sign encode a) =
           Some \<lparr>sd_valid = True, sd_asset_id = a\<rparr>
       \<and> ((case verifyStallQRToken sign decode now tok of
              None \<Rightarrow> True | Some v \<Rightarrow> \<not> sd_valid v)
            \<longleftrightarrow> (case decode tok of
                  None \<Rightarrow> True | Some t \<Rightarrow> st_signature t \<noteq> sign (asset_id t)))
       \<and> (stall_qr_token req = Some tok \<and> tok \<noteq> [] \<longrightarrow>
            (fst (scanStall verifyStall now req d) = ErrorResponse ''Invalid stall QR code'' 400
               \<longleftrightarrow> (case verifyStall now tok of None \<Rightarrow> True | Some v \<Rightarrow> \<not> sd_valid v))
          \<and> (is_success (fst (scanStall verifyStall now req d)) \<longleftrightarrow>
               (\<exists>v. verifyStall now tok = Some v \<and> sd_valid v)
               \<and> (\<exists>stall \<in> set (stalls d). st_qr_code_token stall = Some tok)
               \<and> presence (sr_user_id req) d = Some True)
          \<and> snd (scanStall verifyStall now req d) = d
          \<and> (verifyStall later tok = verifyStall now tok \<longrightarrow>
                scanStall verifyStall later req d = scanStall verifyStall now req d))
       \<and> (Stall_findByQRToken (generateStallQRToken sign encode a) d = Some stall
            \<and> generateStallQRToken sign encode a \<noteq> []
            \<and> stall_qr_token req = Some (generateStallQRToken sign encode a)
            \<and> presence (sr_user_id req) (run_operations qr verifyStall ops d) = Some True \<longrightarrow>
            stall \<in> set (stalls d)
            \<and> st_qr_code_token stall = Some (generateStallQRToken sign encode a)
            \<and> (\<exists>data. scanStall (verifyStallQRToken sign decode) now req
                         (run_operations qr verifyStall ops d) =
                       (SuccessResponse data ''Stall scanned successfully'' 200,
                        run_operations qr verifyStall ops d)
                    \<and> ssd_stall data = view_of stall))"
proof -
  let ?tok = "generateStallQRToken sign encode a"
  let ?d = "run_operations qr verifyStall ops d"
  have v: "verifyStallQRToken sign decode now ?tok = Some \<lparr>sd_valid = True, sd_asset_id = a\<rparr>"
    by (simp add: verifyStallQRToken_def codec)
  have only: "(case verifyStallQRToken sign decode now tok of
              None \<Rightarrow> True | Some v \<Rightarrow> \<not> sd_valid v)
            \<longleftrightarrow> (case decode tok of
                  None \<Rightarrow> True | Some t \<Rightarrow> st_signature t \<noteq> sign (asset_id t))"
    by (simp add: verifyStallQRToken_def split: option.splits)
  have handler: "(fst (scanStall verifyStall now req d) = ErrorResponse ''Invalid stall QR code'' 400
               \<longleftrightarrow> (case verifyStall now tok of None \<Rightarrow> True | Some v \<Rightarrow> \<not> sd_valid v))
          \<and> (is_success (fst (scanStall verifyStall now req d)) \<longleftrightarrow>
               (\<exists>v. verifyStall now tok = Some v \<and> sd_valid v)
               \<and> (\<exists>stall \<in> set (stalls d). st_qr_code_token stall = Some tok)
               \<and> presence (sr_user_id req) d = Some True)
          \<and> snd (scanStall verifyStall now req d) = d
          \<and> (verifyStall later tok = verifyStall now tok \<longrightarrow>
                scanStall verifyStall later req d = scanStall verifyStall now req d)"
    if "stall_qr_token req = Some tok \<and> tok \<noteq> []"
  proof -
    have t: "stall_qr_token req = Some tok" "tok \<noteq> []"
      using that by simp_all
    show ?thesis
      using scanStall_invalid_iff[OF t, of verifyStall now d]
        scanStall_success_iff[OF t, of verifyStall now d]
        scanStall_reads_only[of verifyStall now req d]
        scanStall_clock[OF t(1), of verifyStall later now d]
      by (intro conjI impI)
  qed
  have kept: "stall \<in> set (stalls d) \<and> st_qr_code_token stall = Some ?tok
            \<and> (\<exists>data. scanStall (verifyStallQRToken sign decode) now req ?d =
                     (SuccessResponse data ''Stall scanned successfully'' 200, ?d)
                  \<and> ssd_stall data = view_of stall)"
    if h: "Stall_findByQRToken ?tok d = Some stall \<and> ?tok \<noteq> []
            \<and> stall_qr_token req = Some ?tok \<and> presence (sr_user_id req) ?d = Some True"
  proof -
    have row: "stall \<in> set (stalls d) \<and> st_qr_code_token stall = Some ?tok"
      using h find_Some_mem[of "\<lambda>s. st_qr_code_token s = Some ?tok" "stalls d" stall]
      by (simp add: Stall_findByQRToken_def)
    obtain stall' where s: "Stall_findByQRToken ?tok ?d = Some stall'"
      and e: "view_of stall' = view_of stall"
      using findByQRToken_after_operations[of ?tok d stall qr verifyStall ops] h by blast
    have ok: "sd_valid \<lparr>sd_valid = True, sd_asset_id = a\<rparr>" by simp
    have "\<exists>data. scanStall (verifyStallQRToken sign decode) now req ?d =
                     (SuccessResponse data ''Stall scanned successfully'' 200, ?d)
                  \<and> ssd_stall data = view_of stall"
      using scanStall_success[where verifyStall = "verifyStallQRToken sign decode"
          and req = req and tok = ?tok and now = now and d = ?d and stall = stall', OF _ _ v ok s]
        h e by simp
    then show ?thesis
      using row by blast
  qed
  show ?thesis
    using v only handler kept by blast
qed

theorem static_token_never_expires_witness:
  "generateStallQRToken demo_sign demo_encode ''st1'' = ''st1.sig:st1''
   \<and> demo_decode ''st1.sig:st1'' = Some \<lparr>asset_id = ''st1'', st_signature = demo_sign ''st1''\<rparr>
   \<and> verifyStallQRToken demo_sign demo_decode 36000000 ''st1.sig:st1'' =
       Some \<lparr>sd_valid = True, sd_asset_id = ''st1''\<rparr>
   \<and> verifyStallQRToken demo_sign demo_decode 999999999999999 ''st1.sig:st1'' =
       Some \<lparr>sd_valid = True, sd_asset_id = ''st1''\<rparr>
   \<and> verifyStallQRToken demo_sign demo_decode 36000000 ''st1.forged'' =
       Some \<lparr>sd_valid = False, sd_asset_id = ''st1''\<rparr>
   \<and> fst (scanStall (verifyStallQRToken demo_sign demo_decode) 36000000
             (demo_stall_req\<lparr>stall_qr_token := Some ''st1.forged''\<rparr>) demo_db_with_stall) =
       ErrorResponse ''Invalid stall QR code'' 400
   \<and> is_success (fst (scanStall (verifyStallQRToken demo_sign demo_decode) 36000000
                         demo_stall_req demo_db_with_stall))
   \<and> scanStall (verifyStallQRToken demo_sign demo_decode) 999999999999999 demo_stall_req
         demo_db_with_stall =
       scanStall (verifyStallQRToken demo_sign demo_decode) 36000000 demo_stall_req
         demo_db_with_stall
   \<and> Stall_findByQRToken ''st1.sig:st1'' demo_db_with_stall = Some demo_stall
   \<and> presence ''s1''
        (run_operations demo_qr (verifyStallQRToken demo_sign demo_decode) demo_day
           demo_db_with_stall) = Some True
   \<and> (\<exists>data. scanStall (verifyStallQRToken demo_sign demo_decode) 999999999999999 demo_stall_req
                (run_operations demo_qr (verifyStallQRToken demo_sign demo_decode) demo_day
                   demo_db_with_stall) =
              (SuccessResponse data ''Stall scanned successfully'' 200,
               run_operations demo_qr (verifyStallQRToken demo_sign demo_decode) demo_day
                 demo_db_with_stall)
            \<and> ssd_stall data = view_of demo_stall)"
proof -
  let ?v = "verifyStallQRToken demo_sign demo_decode"
  let ?d = "run_operations demo_qr ?v demo_day demo_db_with_stall"
  have g: "generateStallQRToken demo_sign demo_encode ''st1'' = ''st1.sig:st1''"
    by (simp add: generateStallQRToken_def demo_sign_def demo_encode_def)
  have c0: "demo_decode ''st1.sig:st1'' = Some \<lparr>asset_id = ''st1'', st_signature = demo_sign ''st1''\<rparr>"
    by (simp add: demo_decode_def demo_sign_def)
  have c: "demo_decode (generateStallQRToken demo_sign demo_encode ''st1'') =
             Some \<lparr>asset_id = ''st1'', st_signature = demo_sign ''st1''\<rparr>"
    using c0 by (simp add: g)
  have forged: "?v 36000000 ''st1.forged'' = Some \<lparr>sd_valid = False, sd_asset_id = ''st1''\<rparr>"
    by (simp add: verifyStallQRToken_def demo_decode_def demo_sign_def)
  have p0: "presence ''s1'' demo_db_with_stall = Some True"
    by code_simp
  have p: "presence ''s1'' ?d = Some True"
    by code_simp
  have st: "Stall_findByQRToken ''st1.sig:st1'' demo_db_with_stall = Some demo_stall"
    by code_simp
  have mem: "\<exists>stall \<in> set (stalls demo_db_with_stall). st_qr_code_token stall = Some ''st1.sig:st1''"
    by (simp add: demo_db_with_stall_def demo_stall_def)
  have h: "''st1.sig:st1'' \<noteq> []" "''st1.forged'' \<noteq> []"
    "stall_qr_token demo_stall_req = Some ''st1.sig:st1''" "sr_user_id demo_stall_req = ''s1''"
    "stall_qr_token (demo_stall_req\<lparr>stall_qr_token := Some ''st1.forged''\<rparr>) = Some ''st1.forged''"
    by (simp_all add: demo_stall_req_def)
  note i1 = static_token_never_expires[where decode = demo_decode and sign = demo_sign
      and encode = demo_encode and a = "''st1''" and now = 36000000, OF c, THEN conjunct1]
  note i2 = static_token_never_expires[where decode = demo_decode and sign = demo_sign
      and encode = demo_encode and a = "''st1''" and now = 999999999999999, OF c, THEN conjunct1]
  note i3 = static_token_never_expires[where decode = demo_decode and sign = demo_sign
      and encode = demo_encode and a = "''st1''" and now = 36000000 and verifyStall = ?v
      and req = "demo_stall_req\<lparr>stall_qr_token := Some ''st1.forged''\<rparr>"
      and tok = "''st1.forged''" and d = demo_db_with_stall,
      OF c, THEN conjunct2, THEN conjunct2, THEN conjunct1]
  note i4 = static_token_never_expires[where decode = demo_decode and sign = demo_sign
      and encode = demo_encode and a = "''st1''" and now = 36000000 and verifyStall = ?v
      and req = demo_stall_req and tok = "''st1.sig:st1''" and d = demo_db_with_stall,
      OF c, THEN conjunct2, THEN conjunct2, THEN conjunct1]
  note i6 = static_token_never_expires[where decode = demo_decode and sign = demo_sign
      and encode = demo_encode and a = "''st1''" and now = 36000000 and verifyStall = ?v
      and req = demo_stall_req and tok = "''st1.sig:st1''" and d = demo_db_with_stall
      and later = 999999999999999,
      OF c, THEN conjunct2, THEN conjunct2, THEN conjunct1]
  note i5 = static_token_never_expires[where decode = demo_decode and sign = demo_sign
      and encode = demo_encode and a = "''st1''" and now = 999999999999999 and verifyStall = ?v
      and req = demo_stall_req and d = demo_db_with_stall and stall = demo_stall
      and qr = demo_qr and ops = demo_day,
      OF c, THEN conjunct2, THEN conjunct2, THEN conjunct2]
  have v1: "?v 36000000 ''st1.sig:st1'' = Some \<lparr>sd_valid = True, sd_asset_id = ''st1''\<rparr>"
    using i1 by (simp add: g)
  have v2: "?v 999999999999999 ''st1.sig:st1'' = Some \<lparr>sd_valid = True, sd_asset_id = ''st1''\<rparr>"
    using i2 by (simp add: g)
  have bad: "fst (scanStall ?v 36000000
               (demo_stall_req\<lparr>stall_qr_token := Some ''st1.forged''\<rparr>) demo_db_with_stall) =
             ErrorResponse ''Invalid stall QR code'' 400"
    using i3[THEN mp, OF conjI[OF h(5) h(2)], THEN conjunct1] forged by simp
  have good: "is_success (fst (scanStall ?v 36000000 demo_stall_req demo_db_with_stall))"
    using i4[THEN mp, OF conjI[OF h(3) h(1)], THEN conjunct2, THEN conjunct1] h v1 mem p0
    by simp
  have same: "scanStall ?v 999999999999999 demo_stall_req demo_db_with_stall =
               scanStall ?v 36000000 demo_stall_req demo_db_with_stall"
    using i6[THEN mp, OF conjI[OF h(3) h(1)], THEN conjunct2, THEN conjunct2, THEN conjunct2]
      v1 v2
    by simp
  have far: "\<exists>data. scanStall ?v 999999999999999 demo_stall_req ?d =
              (SuccessResponse data ''Stall scanned successfully'' 200, ?d)
            \<and> ssd_stall data = view_of demo_stall"
    using i5[THEN mp, THEN conjunct2, THEN conjunct2] h st p by (simp add: g)
  show ?thesis
    using g c0 v1 v2 forged bad good same st p far by (intro conjI)
qed

section \<open>Stalls are for students inside the event\<close>

text \<open>
  C9, as the code has it. For every student request to scan a stall or to submit
  stall feedback, when the student is not INSIDE (the row says outside, or there is
  no row) the request is answered with an error and the database is unchanged. The
  error is that of the first check that fails, in the order of the handler. For a
  scan: 400 "Stall QR code is required" for a missing or empty token, 400 "Invalid
  stall QR code" for a token the verifier rejects, 404 "Stall not found" when no
  stall has the token, 404 "Student not found. Please login again." when the student
  has no row, and otherwise 403 "You must be checked in at the event to scan stalls".
  For feedback: 400 "Stall ID and rating are required" for a missing or empty stall
  id and a missing or zero rating, 400 "Rating must be between 1 and 5", 404 "Student
  not found. Please login again.", and otherwise 403 "You must be checked in at the
  event to submit feedback".
\<close>

theorem stalls_only_while_inside:
  assumes "presence uid d \<noteq> Some True"
  shows "(sr_user_id sreq = uid \<longrightarrow>
            scanStall verifyStall now sreq d =
              (case (case stall_qr_token sreq of
                       None \<Rightarrow> (''Stall QR code is required'', 400)
                     | Some tok \<Rightarrow>
                         if tok = [] then (''Stall QR code is required'', 400)
                         else if (case verifyStall now tok of
                                    None \<Rightarrow> True | Some dec \<Rightarrow> \<not> sd_valid dec)
                         then (''Invalid stall QR code'', 400)
                         else if Stall_findByQRToken tok d = None then (''Stall not found'', 404)
                         else if presence uid d = None
                         then (''Student not found. Please login again.'', 404)
                         else (''You must be checked in at the event to scan stalls'', 403))
               of (msg, code) \<Rightarrow> (ErrorResponse msg code, d)))
       \<and> (fr_user_id freq = uid \<longrightarrow>
            submitFeedback now freq d =
              (case (case (fr_stall_id freq, fr_rating freq) of
                       (Some stall_id, Some rating) \<Rightarrow>
                         if stall_id = [] \<or> rating = 0
                         then (''Stall ID and rating are required'', 400)
                         else if rating < 1 \<or> rating > 5
                         then (''Rating must be between 1 and 5'', 400)
                         else if presence uid d = None
                         then (''Student not found. Please login again.'', 404)
                         else (''You must be checked in at the event to submit feedback'', 403)
                     | _ \<Rightarrow> (''Stall ID and rating are required'', 400))
               of (msg, code) \<Rightarrow> (ErrorResponse msg code, d)))"
proof -
  have out: "Student_findById uid d = Some s \<Longrightarrow> \<not> is_inside_event s" for s
    using assms by (auto simp: presence_def)
  have scan: "scanStall verifyStall now sreq d =
              (case (case stall_qr_token sreq of
                       None \<Rightarrow> (''Stall QR code is required'', 400)
                     | Some tok \<Rightarrow>
                         if tok = [] then (''Stall QR code is required'', 400)
                         else if (case verifyStall now tok of
                                    None \<Rightarrow> True | Some dec \<Rightarrow> \<not> sd_valid dec)
                         then (''Invalid stall QR code'', 400)
                         else if Stall_findByQRToken tok d = None then (''Stall not found'', 404)
                         else if presence uid d = None
                         then (''Student not found. Please login again.'', 404)
                         else (''You must be checked in at the event to scan stalls'', 403))
               of (msg, code) \<Rightarrow> (ErrorResponse msg code, d))" if "sr_user_id sreq = uid"
    using that out
    by (auto simp: scanStall_def presence_def Let_def split: option.splits)
  have fb: "submitFeedback now freq d =
              (case (case (fr_stall_id freq, fr_rating freq) of
                       (Some stall_id, Some rating) \<Rightarrow>
                         if stall_id = [] \<or> rating = 0
                         then (''Stall ID and rating are required'', 400)
                         else if rating < 1 \<or> rating > 5
                         then (''Rating must be between 1 and 5'', 400)
                         else if presence uid d = None
                         then (''Student not found. Please login again.'', 404)
                         else (''You must be checked in at the event to submit feedback'', 403)
                     | _ \<Rightarrow> (''Stall ID and rating are required'', 400))
               of (msg, code) \<Rightarrow> (ErrorResponse msg code, d))" if "fr_user_id freq = uid"
    using that out
    by (auto simp: submitFeedback_def presence_def Let_def split: option.splits)
  show ?thesis
    using scan fb by blast
qed

theorem stalls_only_while_inside_witness:
  "presence ''s1'' demo_db_stall_outside = Some False
   \<and> verifyStallQRToken demo_sign demo_decode 37000000 ''st1.sig:st1'' =
       Some \<lparr>sd_valid = True, sd_asset_id = ''st1''\<rparr>
   \<and> Stall_findByQRToken ''st1.sig:st1'' demo_db_stall_outside = Some demo_stall
   \<and> scanStall (verifyStallQRToken demo_sign demo_decode) 37000000 demo_stall_req
         demo_db_stall_outside =
       (ErrorResponse ''You must be checked in at the event to scan stalls'' 403,
        demo_db_stall_outside)
   \<and> submitFeedback 37000000 demo_feedback_req demo_db_stall_outside =
       (ErrorResponse ''You must be checked in at the event to submit feedback'' 403,
        demo_db_stall_outside)
   \<and> presence ''nobody'' demo_db_stall_outside = None
   \<and> scanStall (verifyStallQRToken demo_sign demo_decode) 37000000
         (demo_stall_req\<lparr>sr_user_id := ''nobody''\<rparr>) demo_db_stall_outside =
       (ErrorResponse ''Student not found. Please login again.'' 404, demo_db_stall_outside)
   \<and> submitFeedback 37000000 (demo_feedback_req\<lparr>fr_user_id := ''nobody''\<rparr>)
         demo_db_stall_outside =
       (ErrorResponse ''Student not found. Please login again.'' 404, demo_db_stall_outside)
   \<and> scanStall (verifyStallQRToken demo_sign demo_decode) 37000000
         (demo_stall_req\<lparr>stall_qr_token := None\<rparr>) demo_db_stall_outside =
       (ErrorResponse ''Stall QR code is required'' 400, demo_db_stall_outside)
   \<and> submitFeedback 37000000 (demo_feedback_req\<lparr>fr_rating := None\<rparr>) demo_db_stall_outside =
       (ErrorResponse ''Stall ID and rating are required'' 400, demo_db_stall_outside)"
proof -
  let ?v = "verifyStallQRToken demo_sign demo_decode"
  have p: "presence ''s1'' demo_db_stall_outside = Some False"
    by code_simp
  then have np: "presence ''s1'' demo_db_stall_outside \<noteq> Some True"
    by simp
  have q: "presence ''nobody'' demo_db_stall_outside = None"
    by code_simp
  then have nq: "presence ''nobody'' demo_db_stall_outside \<noteq> Some True"
    by simp
  have v: "?v 37000000 ''st1.sig:st1'' = Some \<lparr>sd_valid = True, sd_asset_id = ''st1''\<rparr>"
    by (simp add: verifyStallQRToken_def demo_decode_def demo_sign_def)
  have st: "Stall_findByQRToken ''st1.sig:st1'' demo_db_stall_outside = Some demo_stall"
    by code_simp
  have r: "sr_user_id demo_stall_req = ''s1''"
    "stall_qr_token demo_stall_req = Some ''st1.sig:st1''"
    "fr_user_id demo_feedback_req = ''s1''" "fr_stall_id demo_feedback_req = Some ''st1''"
    "fr_rating demo_feedback_req = Some 4"
    by (simp_all add: demo_stall_req_def demo_feedback_req_def)
  note i1 = stalls_only_while_inside[OF np, where sreq = demo_stall_req and verifyStall = ?v
      and now = 37000000, THEN conjunct1]
  note i2 = stalls_only_while_inside[OF np, where freq = demo_feedback_req
      and now = 37000000, THEN conjunct2]
  note i3 = stalls_only_while_inside[OF nq,
      where sreq = "demo_stall_req\<lparr>sr_user_id := ''nobody''\<rparr>" and verifyStall = ?v
      and now = 37000000, THEN conjunct1]
  note i4 = stalls_only_while_inside[OF nq,
      where freq = "demo_feedback_req\<lparr>fr_user_id := ''nobody''\<rparr>"
      and now = 37000000, THEN conjunct2]
  note i5 = stalls_only_while_inside[OF np,
      where sreq = "demo_stall_req\<lparr>stall_qr_token := None\<rparr>" and verifyStall = ?v
      and now = 37000000, THEN conjunct1]
  note i6 = stalls_only_while_inside[OF np,
      where freq = "demo_feedback_req\<lparr>fr_rating := None\<rparr>"
      and now = 37000000, THEN conjunct2]
  have c1: "scanStall ?v 37000000 demo_stall_req demo_db_stall_outside =
       (ErrorResponse ''You must be checked in at the event to scan stalls'' 403,
        demo_db_stall_outside)"
    using i1 r p v st by simp
  have c2: "submitFeedback 37000000 demo_feedback_req demo_db_stall_outside =
       (ErrorResponse ''You must be checked in at the event to submit feedback'' 403,
        demo_db_stall_outside)"
    using i2 r p by simp
  have c3: "scanStall ?v 37000000 (demo_stall_req\<lparr>sr_user_id := ''nobody''\<rparr>)
              demo_db_stall_outside =
       (ErrorResponse ''Student not found. Please login again.'' 404, demo_db_stall_outside)"
    using i3 r q v st by simp
  have c4: "submitFeedback 37000000 (demo_feedback_req\<lparr>fr_user_id := ''nobody''\<rparr>)
         demo_db_stall_outside =
       (ErrorResponse ''Student not found. Please login again.'' 404, demo_db_stall_outside)"
    using i4 r q by simp
  have c5: "scanStall ?v 37000000 (demo_stall_req\<lparr>stall_qr_token := None\<rparr>)
              demo_db_stall_outside =
       (ErrorResponse ''Stall QR code is required'' 400, demo_db_stall_outside)"
    using i5 r by simp
  have c6: "submitFeedback 37000000 (demo_feedback_req\<lparr>fr_rating := None\<rparr>)
              demo_db_stall_outside =
       (ErrorResponse ''Stall ID and rating are required'' 400, demo_db_stall_outside)"
    using i6 r by simp
  show ?thesis
    using p v st c1 c2 q c3 c4 c5 c6 by (intro conjI)
qed

text \<open>
  The handlers on a student who is outside and a request that fails an earlier check:
  a forged stall token and a rating of 9 are answered 400, not 403.
\<close>

theorem outside_student_bad_request_is_400:
  "presence ''s1'' demo_db_stall_outside = Some False
   \<and> scanStall (verifyStallQRToken demo_sign demo_decode) 37000000
         (demo_stall_req\<lparr>stall_qr_token := Some ''st1.forged''\<rparr>) demo_db_stall_outside =
       (ErrorResponse ''Invalid stall QR code'' 400, demo_db_stall_outside)
   \<and> submitFeedback 37000000 (demo_feedback_req\<lparr>fr_rating := Some 9\<rparr>) demo_db_stall_outside =
       (ErrorResponse ''Rating must be between 1 and 5'' 400, demo_db_stall_outside)"
  by code_simp

end
